theory Spec2Isabelle
  imports Complex_Main
begin

section \<open>Exceptions\<close>

text \<open>
  The Python code signals every failure by raising. An exception is a value of \<open>exn\<close>:
  one constructor per Python exception class that the modelled code can raise, carrying
  the message (or, for the formatted messages, the name or path the message is built from).
  A function that can raise returns \<open>exn + 'a\<close>, with \<open>Inl\<close> for the raise.
  A method that mutates its object before it raises returns the object next to the
  optional exception, so that the state left behind by a failed call is part of the model.
\<close>

datatype exn =
    ValueError string
  | KeyError string
  | FileNotFoundError string
  | IndexError string
  | AttributeError string
  | RuntimeError string
  | TypeError string

definition model_not_loaded :: exn where
  "model_not_loaded = ValueError ''Model not loaded. Call restore() first.''"

definition no_model_loaded :: exn where
  "no_model_loaded = ValueError ''No model loaded. Call set_model() first.''"

definition model_name_not_set :: exn where
  "model_name_not_set = ValueError ''Model name not set. Call set_model() first.''"

definition kth_out_of_bounds :: exn where
  "kth_out_of_bounds = ValueError ''kth out of bounds''"

definition kth_not_integer :: exn where
  "kth_not_integer = TypeError ''Partition index must be integer''"

definition index_not_integer :: exn where
  "index_not_integer = IndexError ''arrays used as indices must be of integer (or boolean) type''"

definition embedding_table_empty :: exn where
  "embedding_table_empty = RuntimeError ''index_select(): self indexing axis dim should be positive''"

definition index_out_of_bounds :: exn where
  "index_out_of_bounds = IndexError ''index out of bounds''"

definition embedding_index_out_of_range :: exn where
  "embedding_index_out_of_range = IndexError ''index out of range in self''"

section \<open>Scores\<close>

text \<open>
  A score is a float64 that the code orders, negates and overwrites with
  \<^verbatim>\<open>float('-inf')\<close>. Finite values are reals here; the two infinities are
  constructors of their own. NaN is not modelled: the networks end in a sigmoid.
\<close>

datatype score = NegInf | Fin real | PosInf

fun score_le :: "score \<Rightarrow> score \<Rightarrow> bool" where
  "score_le NegInf _ = True"
| "score_le _ PosInf = True"
| "score_le (Fin a) (Fin b) = (a \<le> b)"
| "score_le _ _ = False"

instantiation score :: linorder
begin

definition less_eq_score :: "score \<Rightarrow> score \<Rightarrow> bool" where
  "less_eq_score x y = score_le x y"

definition less_score :: "score \<Rightarrow> score \<Rightarrow> bool" where
  "less_score x y = (score_le x y \<and> \<not> score_le y x)"

instance
proof
  fix x y z :: score
  show "(x < y) = (x \<le> y \<and> \<not> y \<le> x)"
    by (simp add: less_eq_score_def less_score_def)
  show "x \<le> x"
    by (cases x) (simp_all add: less_eq_score_def)
  show "x \<le> y \<Longrightarrow> y \<le> z \<Longrightarrow> x \<le> z"
    by (cases x; cases y; cases z) (simp_all add: less_eq_score_def)
  show "x \<le> y \<Longrightarrow> y \<le> x \<Longrightarrow> x = y"
    by (cases x; cases y) (simp_all add: less_eq_score_def)
  show "x \<le> y \<or> y \<le> x"
    by (cases x; cases y) (auto simp add: less_eq_score_def)
qed

end

text \<open>Unary minus on a float64, as in \<^verbatim>\<open>-scores\<close>.\<close>

fun negate :: "score \<Rightarrow> score" where
  "negate NegInf = PosInf"
| "negate (Fin a) = Fin (- a)"
| "negate PosInf = NegInf"

section \<open>The numpy and Python primitives the models call\<close>

text \<open>\<^verbatim>\<open>np.zeros(n)\<close>.\<close>

definition np_zeros :: "nat \<Rightarrow> score list" where
  "np_zeros n = replicate n (Fin 0)"

text \<open>\<^verbatim>\<open>xs[i:j]\<close> for \<open>0 \<le> i\<close>, \<open>0 \<le> j\<close>: Python clips both bounds to the length.\<close>

definition slice :: "'a list \<Rightarrow> nat \<Rightarrow> nat \<Rightarrow> 'a list" where
  "slice xs i j = take (j - i) (drop i xs)"

text \<open>
  \<^verbatim>\<open>xs[i:j] = vs\<close> on a numpy array, for \<open>i \<le> j \<le> len(xs)\<close> and \<open>vs\<close> of \<open>j - i\<close>
  elements (the only way the models use it: \<open>vs\<close> is the network's output on the
  \<open>j - i\<close> items of the batch).
\<close>

definition assign_slice :: "'a list \<Rightarrow> nat \<Rightarrow> nat \<Rightarrow> 'a list \<Rightarrow> 'a list" where
  "assign_slice xs i j vs = take i xs @ vs @ drop j xs"

text \<open>\<^verbatim>\<open>range(start, stop, step)\<close> for a positive step.\<close>

function py_range :: "nat \<Rightarrow> nat \<Rightarrow> nat \<Rightarrow> nat list" where
  "py_range start stop step =
     (if step = 0 then []
      else if start < stop then start # py_range (start + step) stop step
      else [])"
  by pat_completeness auto
termination
  by (relation "measure (\<lambda>(start, stop, step). stop - start)") auto

text \<open>
  \<^verbatim>\<open>xs[:k]\<close> for a Python integer \<open>k\<close>: a negative \<open>k\<close> counts from the end.
\<close>

definition py_take :: "'a list \<Rightarrow> int \<Rightarrow> 'a list" where
  "py_take xs k =
     (if k < 0 then take (nat (int (length xs) + k)) xs else take (nat k) xs)"

text \<open>
  A numpy index \<open>i\<close> into an axis of length \<open>n\<close> is valid when \<open>-n \<le> i < n\<close>; a
  negative one counts from the end.
\<close>

definition index_ok :: "nat \<Rightarrow> int \<Rightarrow> bool" where
  "index_ok n i \<longleftrightarrow> - int n \<le> i \<and> i < int n"

definition norm_index :: "nat \<Rightarrow> int \<Rightarrow> nat" where
  "norm_index n i = nat (if i < 0 then i + int n else i)"

text \<open>
  numpy works with 64-bit indices. It turns the Python integers it is given into an
  array first: of type int64 when all of them fit, else of type uint64 when all of them
  are non-negative and fit, else of a type that is no integer type, which it refuses as
  an index. A uint64 is then read as an int64, so that a value from \<open>2^63\<close> on wraps
  to a negative one. An array has fewer than \<open>2^63\<close> elements, so indices that are
  within the bounds as they stand are always of the first kind; the test for it is part
  of the first case so that this holds for a list of any length.
\<close>

definition int64_ok :: "int \<Rightarrow> bool" where
  "int64_ok i \<longleftrightarrow> - (2 ^ 63) \<le> i \<and> i < 2 ^ 63"

definition uint64_ok :: "int \<Rightarrow> bool" where
  "uint64_ok i \<longleftrightarrow> 0 \<le> i \<and> i < 2 ^ 64"

definition uint64_as_int64 :: "int \<Rightarrow> int" where
  "uint64_as_int64 i = (if 2 ^ 63 \<le> i then i - 2 ^ 64 else i)"

definition index_array :: "nat \<Rightarrow> int list \<Rightarrow> exn + int list" where
  "index_array n idx =
     (if list_all int64_ok idx \<or> list_all (index_ok n) idx then Inr idx
      else if list_all uint64_ok idx then Inr (map uint64_as_int64 idx)
      else Inl index_not_integer)"

definition index_scalar :: "nat \<Rightarrow> int \<Rightarrow> exn + int" where
  "index_scalar n kth =
     (if int64_ok kth \<or> index_ok n kth then Inr kth
      else if uint64_ok kth then Inr (uint64_as_int64 kth)
      else Inl kth_not_integer)"

text \<open>
  \<^verbatim>\<open>scores[user_context] = float('-inf')\<close>: assignment through an integer index
  array. numpy raises IndexError, assigning nothing, when the list is no integer index
  array or when an index is out of bounds.
\<close>

definition mask_context :: "score list \<Rightarrow> int list \<Rightarrow> exn + score list" where
  "mask_context scores user_context =
     (case index_array (length scores) user_context of
        Inl e \<Rightarrow> Inl e
      | Inr idx \<Rightarrow>
          if list_all (index_ok (length scores)) idx
          then Inr (fold (\<lambda>i s. s[norm_index (length scores) i := NegInf]) idx scores)
          else Inl index_out_of_bounds)"

text \<open>\<^verbatim>\<open>xs[idx]\<close> for an index array \<open>idx\<close> of non-negative integers.\<close>

definition take_idx :: "'a list \<Rightarrow> nat list \<Rightarrow> exn + 'a list" where
  "take_idx xs idx =
     (if list_all (\<lambda>i. i < length xs) idx then Inr (map (\<lambda>i. xs ! i) idx)
      else Inl index_out_of_bounds)"

subsection \<open>Selection and sorting\<close>

text \<open>
  \<^verbatim>\<open>np.argpartition(a, kth)\<close> and \<^verbatim>\<open>np.argsort(a)\<close> are library code. The models
  take them as parameters: \<open>ap a kth\<close> is the index array that the library's selection
  returns for a valid \<open>kth\<close>, and \<open>as a\<close> the one its default sort returns. What
  numpy documents about them is \<open>argpartition_lawful\<close> and \<open>argsort_lawful\<close>: the
  result is a permutation of the indices; after \<open>argsort\<close> the keys are in
  non-decreasing order; after \<open>argpartition\<close> the key at position \<open>kth\<close> is where a
  sort would put it, no key before it is larger and no key after it is smaller. Neither
  promises an order among equal keys (the default sort kind is not stable).
  What numpy does with \<open>kth\<close> before it selects is part of the model: it refuses a
  \<open>kth\<close> that is no 64-bit integer with a TypeError, reads it as a 64-bit index, and
  checks the bounds, except for an empty array.
\<close>

type_synonym argpartition_fn = "score list \<Rightarrow> nat \<Rightarrow> nat list"
type_synonym argsort_fn = "score list \<Rightarrow> nat list"

definition index_perm :: "nat list \<Rightarrow> nat \<Rightarrow> bool" where
  "index_perm p n \<longleftrightarrow> distinct p \<and> set p = {0..<n}"

definition argsort_lawful :: "argsort_fn \<Rightarrow> bool" where
  "argsort_lawful as \<longleftrightarrow>
     (\<forall>a. index_perm (as a) (length a) \<and> sorted (map (\<lambda>i. a ! i) (as a)))"

definition argpartition_lawful :: "argpartition_fn \<Rightarrow> bool" where
  "argpartition_lawful ap \<longleftrightarrow>
     (\<forall>a kth. kth < length a \<longrightarrow>
        index_perm (ap a kth) (length a) \<and>
        (\<forall>i. i < kth \<longrightarrow> a ! (ap a kth ! i) \<le> a ! (ap a kth ! kth)) \<and>
        (\<forall>i. kth < i \<and> i < length a \<longrightarrow> a ! (ap a kth ! kth) \<le> a ! (ap a kth ! i)))"

definition np_argpartition :: "argpartition_fn \<Rightarrow> score list \<Rightarrow> int \<Rightarrow> exn + nat list" where
  "np_argpartition ap a kth =
     (case index_scalar (length a) kth of
        Inl e \<Rightarrow> Inl e
      | Inr k \<Rightarrow>
          if a = [] then Inr []
          else if index_ok (length a) k then Inr (ap a (norm_index (length a) k))
          else Inl kth_out_of_bounds)"

text \<open>
  Two lawful libraries, used to run the models on concrete inputs: a stable sort of the
  indices, and the same sort started from the indices in descending order (which leaves
  equal keys in descending index order).
\<close>

definition stable_argsort :: argsort_fn where
  "stable_argsort a = sort_key (\<lambda>i. a ! i) [0..<length a]"

definition stable_argpartition :: argpartition_fn where
  "stable_argpartition a kth = stable_argsort a"

definition backward_argsort :: argsort_fn where
  "backward_argsort a = sort_key (\<lambda>i. a ! i) (rev [0..<length a])"

definition backward_argpartition :: argpartition_fn where
  "backward_argpartition a kth = backward_argsort a"

section \<open>The networks\<close>

text \<open>
  \<open>NeuralMFModel\<close> and \<open>DeepFMModel\<close> are torch modules. Both look the user and the
  item up in two embedding tables of \<open>num_users\<close> and \<open>num_items\<close> rows and feed the two
  vectors to layers whose shapes are fixed by \<open>embedding_dim\<close> and the hidden layer
  sizes. The tensor arithmetic is floating point and is not modelled: the parameter
  tensors of a network are identified with the function \<open>net_score\<close> that they compute
  from a user index and an item index in evaluation mode (dropout off). What is modelled
  is what the claims depend on: the shapes, the lookups and their errors, and the state
  dict that \<open>save\<close> writes and \<open>restore\<close> loads. The errors are those of torch's CPU
  device, which \<open>__init__\<close> selects wherever CUDA is not available; on a CUDA device a
  failed lookup surfaces as a CUDA runtime error instead.
\<close>

datatype variant = NeuralMF | DeepFM

record arch =
  a_variant :: variant
  a_num_users :: nat
  a_num_items :: nat
  a_embedding_dim :: nat
  a_hidden_dims :: "nat list"

record state_dict =
  sd_arch :: arch
  sd_score :: "nat \<Rightarrow> nat \<Rightarrow> real"

record network =
  net_arch :: arch
  net_dropout :: real
  net_score :: "nat \<Rightarrow> nat \<Rightarrow> real"

text \<open>
  The constructors \<^verbatim>\<open>NeuralMFModel(num_users, num_items, embedding_dim, hidden_dims, dropout)\<close>
  and \<^verbatim>\<open>DeepFMModel(...)\<close>. The fresh parameters are drawn at random; \<open>w0\<close> is the
  function the drawn parameters compute. \<open>DeepFMModel\<close> reads
  \<^verbatim>\<open>deep_hidden_dims[-1]\<close>, which raises on an empty list.
\<close>

definition new_network ::
  "(nat \<Rightarrow> nat \<Rightarrow> real) \<Rightarrow> variant \<Rightarrow> nat \<Rightarrow> nat \<Rightarrow> nat \<Rightarrow> nat list \<Rightarrow> real \<Rightarrow> exn + network" where
  "new_network w0 v nu ni emb hid dr =
     (if v = DeepFM \<and> hid = [] then Inl (IndexError ''list index out of range'')
      else Inr \<lparr>net_arch = \<lparr>a_variant = v, a_num_users = nu, a_num_items = ni,
                              a_embedding_dim = emb, a_hidden_dims = hid\<rparr>,
                 net_dropout = dr, net_score = w0\<rparr>)"

text \<open>
  An embedding lookup, \<^verbatim>\<open>self.user_embedding(user_ids)\<close>: what it raises, if
  anything, for a table of \<open>rows\<close> rows. A table without rows makes torch raise
  RuntimeError, an index that is not a row of a table with rows IndexError. (No batch
  in the code is empty.)
\<close>

definition embedding :: "nat \<Rightarrow> nat list \<Rightarrow> exn option" where
  "embedding rows ids =
     (if ids = [] then None
      else if rows = 0 then Some embedding_table_empty
      else if list_all (\<lambda>i. i < rows) ids then None
      else Some embedding_index_out_of_range)"

text \<open>
  \<^verbatim>\<open>self.model(batch_users, batch_items)\<close>: the forward pass on a batch. The user
  lookup comes first, then the item lookup, then the layers.
\<close>

definition forward :: "network \<Rightarrow> nat list \<Rightarrow> nat list \<Rightarrow> exn + score list" where
  "forward net user_ids item_ids =
     (case embedding (a_num_users (net_arch net)) user_ids of
        Some e \<Rightarrow> Inl e
      | None \<Rightarrow>
         (case embedding (a_num_items (net_arch net)) item_ids of
            Some e \<Rightarrow> Inl e
          | None \<Rightarrow> Inr (map (\<lambda>(u, i). Fin (net_score net u i)) (zip user_ids item_ids))))"

text \<open>What a batch for user \<open>u\<close> raises when one of its two lookups fails.\<close>

definition lookup_error :: "network \<Rightarrow> nat \<Rightarrow> exn" where
  "lookup_error net u =
     (if a_num_users (net_arch net) = 0 then embedding_table_empty
      else if a_num_users (net_arch net) \<le> u then embedding_index_out_of_range
      else if a_num_items (net_arch net) = 0 then embedding_table_empty
      else embedding_index_out_of_range)"

definition get_state_dict :: "network \<Rightarrow> state_dict" where
  "get_state_dict net = \<lparr>sd_arch = net_arch net, sd_score = net_score net\<rparr>"

text \<open>
  \<^verbatim>\<open>load_state_dict\<close> is strict: it raises RuntimeError unless the tensors of the
  state dict have the names and shapes of the network's own.
\<close>

definition load_state_dict :: "network \<Rightarrow> state_dict \<Rightarrow> exn + network" where
  "load_state_dict net sd =
     (if sd_arch sd = net_arch net then Inr (net\<lparr>net_score := sd_score sd\<rparr>)
      else Inl (RuntimeError ''Error(s) in loading state_dict''))"

section \<open>The model classes NeuralMF and DeepFM\<close>

text \<open>
  The two classes differ in the network they build, in the name of the hidden layer
  attribute (\<open>hidden_dims\<close>, \<open>deep_hidden_dims\<close>) and in the checkpoint file name;
  \<open>predict\<close>, \<open>recommend\<close>, \<open>save\<close> and \<open>restore\<close> are the same text otherwise. One
  record models an instance of either, tagged with its class. The instance has no device
  attribute here: it is on the CPU device throughout.
\<close>

record neural =
  variant :: variant
  embedding_dim :: nat
  hidden_dims :: "nat list"
  dropout :: real
  batch_size :: nat
  epochs :: nat
  learning_rate :: real
  num_users :: nat
  num_items :: nat
  model :: "network option"
  model_loaded :: bool

text \<open>\<^verbatim>\<open>__init__\<close> with its default arguments.\<close>

definition neural_init :: "variant \<Rightarrow> neural" where
  "neural_init v =
     \<lparr>variant = v, embedding_dim = 64, hidden_dims = [128, 64], dropout = 0.2,
      batch_size = 256, epochs = 20, learning_rate = 0.001,
      num_users = 0, num_items = 0, model = None, model_loaded = False\<rparr>"

text \<open>
  The inference loop that \<open>predict\<close> runs for every row and \<open>recommend\<close> for row 0:
  the items in batches of 1000, each batch through the network, each result written into
  its slice of the score array.
\<close>

definition inference_batch_size :: nat where
  "inference_batch_size = 1000"

fun batch_loop ::
  "network \<Rightarrow> nat list \<Rightarrow> nat list \<Rightarrow> nat \<Rightarrow> nat list \<Rightarrow> score list \<Rightarrow> exn + score list" where
  "batch_loop net user_tensor item_tensor n [] scores = Inr scores"
| "batch_loop net user_tensor item_tensor n (i # rest) scores =
     (let end_idx = min (i + inference_batch_size) n;
          batch_items = slice item_tensor i end_idx;
          batch_users = slice user_tensor i end_idx
      in case forward net batch_users batch_items of
           Inl e \<Rightarrow> Inl e
         | Inr batch_scores \<Rightarrow>
             batch_loop net user_tensor item_tensor n rest
               (assign_slice scores i end_idx batch_scores))"

definition score_items :: "network \<Rightarrow> nat \<Rightarrow> nat \<Rightarrow> exn + score list" where
  "score_items net u n =
     batch_loop net (replicate n u) [0..<n] n (py_range 0 n inference_batch_size) (np_zeros n)"

text \<open>
  The body of \<open>recommend\<close> after its guards, in the two steps its comments name.
  \<open>context_scores\<close> scores every item for the placeholder user 0 and masks the items
  of the context (source lines "Get predictions for all items" to "Mask out items user
  has already seen"); \<open>top_k_select\<close> is "Get top-k items":
  \<^verbatim>\<open>
  top_k_indices = np.argpartition(-scores, top_k)[:top_k]
  top_k_indices = top_k_indices[np.argsort(-scores[top_k_indices])]
  \<close>
\<close>

definition context_scores :: "network \<Rightarrow> nat \<Rightarrow> int list \<Rightarrow> exn + score list" where
  "context_scores net n user_context =
     (case score_items net 0 n of
        Inl e \<Rightarrow> Inl e
      | Inr scores \<Rightarrow> mask_context scores user_context)"

definition top_k_select :: "argpartition_fn \<Rightarrow> argsort_fn \<Rightarrow> score list \<Rightarrow> int \<Rightarrow> exn + nat list" where
  "top_k_select ap as scores top_k =
     (case np_argpartition ap (map negate scores) top_k of
        Inl e \<Rightarrow> Inl e
      | Inr part \<Rightarrow>
         (let top_k_indices = py_take part top_k in
          case take_idx scores top_k_indices of
            Inl e \<Rightarrow> Inl e
          | Inr top_scores \<Rightarrow> take_idx top_k_indices (as (map negate top_scores))))"

text \<open>
  \<^verbatim>\<open>recommend(self, user_context, top_k=10)\<close>. Calling \<^verbatim>\<open>self.model.eval()\<close> on a
  missing network raises AttributeError.
\<close>

definition recommend ::
  "argpartition_fn \<Rightarrow> argsort_fn \<Rightarrow> neural \<Rightarrow> int list \<Rightarrow> int \<Rightarrow> exn + int list" where
  "recommend ap as self user_context top_k =
     (if \<not> model_loaded self then Inl model_not_loaded
      else if length user_context = 0 then Inr []
      else case model self of
        None \<Rightarrow> Inl (AttributeError ''eval'')
      | Some net \<Rightarrow>
         (case context_scores net (num_items self) user_context of
            Inl e \<Rightarrow> Inl e
          | Inr scores \<Rightarrow>
             (case top_k_select ap as scores top_k of
                Inl e \<Rightarrow> Inl e
              | Inr top_k_indices \<Rightarrow> Inr (map int top_k_indices))))"

subsection \<open>predict\<close>

text \<open>
  A scipy sparse rating matrix: its shape and its stored values (0 where nothing is
  stored). \<open>nonzero\<close> is \<^verbatim>\<open>rating_matrix.nonzero()\<close>, the positions of the nonzero
  entries in row-major order.
\<close>

record rating_matrix =
  nrows :: nat
  ncols :: nat
  entry :: "nat \<Rightarrow> nat \<Rightarrow> int"

definition nonzero :: "rating_matrix \<Rightarrow> (nat \<times> nat) list" where
  "nonzero M =
     concat (map (\<lambda>r. map (\<lambda>c. (r, c)) (filter (\<lambda>c. entry M r c \<noteq> 0) [0..<ncols M]))
                 [0..<nrows M])"

text \<open>
  The outer loop of \<open>predict\<close> over the users. Row \<open>u\<close> of \<open>predictions\<close> starts as
  zeros and is filled batch by batch, which is \<open>score_items\<close>; the first batch that
  raises ends the call.
\<close>

fun predict_rows :: "network \<Rightarrow> nat \<Rightarrow> nat list \<Rightarrow> exn + score list list" where
  "predict_rows net n [] = Inr []"
| "predict_rows net n (u # us) =
     (case score_items net u n of
        Inl e \<Rightarrow> Inl e
      | Inr row \<Rightarrow>
         (case predict_rows net n us of
            Inl e \<Rightarrow> Inl e
          | Inr rows \<Rightarrow> Inr (row # rows)))"

text \<open>\<^verbatim>\<open>predictions[rating_matrix.nonzero()] = float('-inf')\<close>.\<close>

definition mask_nonzero :: "score list list \<Rightarrow> rating_matrix \<Rightarrow> score list list" where
  "mask_nonzero predictions M =
     fold (\<lambda>(r, c) P. P[r := (P ! r)[c := NegInf]]) (nonzero M) predictions"

definition predict :: "neural \<Rightarrow> rating_matrix \<Rightarrow> exn + score list list" where
  "predict self M =
     (if \<not> model_loaded self then Inl model_not_loaded
      else case model self of
        None \<Rightarrow> Inl (AttributeError ''eval'')
      | Some net \<Rightarrow>
         (case predict_rows net (ncols M) [0..<nrows M] of
            Inl e \<Rightarrow> Inl e
          | Inr predictions \<Rightarrow> Inr (mask_nonzero predictions M)))"

subsection \<open>save and restore\<close>

text \<open>
  A checkpoint file holds the dict that \<open>save\<close> hands to \<^verbatim>\<open>torch.save\<close>. A key is
  present or absent; a present key holds a value of the type \<open>save\<close> writes under it.
  The file system maps a path to the checkpoint stored there.
\<close>

record checkpoint =
  ck_model_state_dict :: "state_dict option"
  ck_num_users :: "nat option"
  ck_num_items :: "nat option"
  ck_embedding_dim :: "nat option"
  ck_hidden_dims :: "nat list option"
  ck_deep_hidden_dims :: "nat list option"
  ck_dropout :: "real option"

type_synonym filesystem = "string \<Rightarrow> checkpoint option"

definition empty_checkpoint :: checkpoint where
  "empty_checkpoint =
     \<lparr>ck_model_state_dict = None, ck_num_users = None, ck_num_items = None,
      ck_embedding_dim = None, ck_hidden_dims = None, ck_deep_hidden_dims = None,
      ck_dropout = None\<rparr>"

text \<open>The decimal digits of a natural number, as an f-string prints it.\<close>

function string_of_nat :: "nat \<Rightarrow> string" where
  "string_of_nat n =
     (if n < 10 then [char_of (48 + n)]
      else string_of_nat (n div 10) @ [char_of (48 + n mod 10)])"
  by pat_completeness auto
termination
  by (relation "measure (\<lambda>n. n)") auto

definition save_filename :: "neural \<Rightarrow> string" where
  "save_filename self =
     (case variant self of NeuralMF \<Rightarrow> ''NeuralMF_emb'' | DeepFM \<Rightarrow> ''DeepFM_emb'')
       @ string_of_nat (embedding_dim self) @ ''.pth''"

text \<open>\<^verbatim>\<open>os.path.join(a, b)\<close> for a relative \<open>b\<close>.\<close>

definition path_join :: "string \<Rightarrow> string \<Rightarrow> string" where
  "path_join a b =
     (if a = [] then b else if last a = CHR ''/'' then a @ b else a @ ''/'' @ b)"

text \<open>
  \<open>save\<close>: the hidden layer sizes go under \<open>hidden_dims\<close> for NeuralMF and under
  \<open>deep_hidden_dims\<close> for DeepFM. \<^verbatim>\<open>os.makedirs\<close> comes first and raises on the
  empty path; reading the state dict of a missing network raises. The file system is an
  idealisation: a file is named by the string of its path, so two spellings of one path
  are two files, and there are no directories, so no other failure of
  \<^verbatim>\<open>os.makedirs\<close> or of writing the file (a file in the way, missing rights, a full
  disk) is part of it.
\<close>

definition save :: "neural \<Rightarrow> string \<Rightarrow> filesystem \<Rightarrow> exn + filesystem" where
  "save self save_dir fs =
     (if save_dir = [] then Inl (FileNotFoundError save_dir) else
      let save_path = path_join save_dir (save_filename self) in
      case model self of
        None \<Rightarrow> Inl (AttributeError ''state_dict'')
      | Some net \<Rightarrow>
         Inr (fs(save_path \<mapsto>
           (case variant self of
              NeuralMF \<Rightarrow>
                empty_checkpoint\<lparr>ck_model_state_dict := Some (get_state_dict net),
                  ck_num_users := Some (num_users self), ck_num_items := Some (num_items self),
                  ck_embedding_dim := Some (embedding_dim self),
                  ck_hidden_dims := Some (hidden_dims self),
                  ck_dropout := Some (dropout self)\<rparr>
            | DeepFM \<Rightarrow>
                empty_checkpoint\<lparr>ck_model_state_dict := Some (get_state_dict net),
                  ck_num_users := Some (num_users self), ck_num_items := Some (num_items self),
                  ck_embedding_dim := Some (embedding_dim self),
                  ck_deep_hidden_dims := Some (hidden_dims self),
                  ck_dropout := Some (dropout self)\<rparr>))))"

text \<open>
  \<open>restore\<close> assigns the attributes one after the other, so a failure part of the way
  leaves the earlier assignments in place: the instance is returned with the exception.
  \<open>w0\<close> stands for the random parameters of the network built before the weights are
  loaded into it.
\<close>

definition restore ::
  "(nat \<Rightarrow> nat \<Rightarrow> real) \<Rightarrow> filesystem \<Rightarrow> neural \<Rightarrow> string \<Rightarrow> exn option \<times> neural" where
  "restore w0 fs self ckpt =
     (case fs ckpt of
        None \<Rightarrow> (Some (FileNotFoundError ckpt), self)
      | Some checkpoint \<Rightarrow>
     (case ck_num_users checkpoint of
        None \<Rightarrow> (Some (KeyError ''num_users''), self)
      | Some nu \<Rightarrow>
     (let self = self\<lparr>num_users := nu\<rparr> in
      case ck_num_items checkpoint of
        None \<Rightarrow> (Some (KeyError ''num_items''), self)
      | Some ni \<Rightarrow>
     (let self = self\<lparr>num_items := ni\<rparr> in
      case ck_embedding_dim checkpoint of
        None \<Rightarrow> (Some (KeyError ''embedding_dim''), self)
      | Some emb \<Rightarrow>
     (let self = self\<lparr>embedding_dim := emb\<rparr> in
      case (case variant self of NeuralMF \<Rightarrow> ck_hidden_dims checkpoint
                               | DeepFM \<Rightarrow> ck_deep_hidden_dims checkpoint) of
        None \<Rightarrow> (Some (KeyError (case variant self of NeuralMF \<Rightarrow> ''hidden_dims''
                                                       | DeepFM \<Rightarrow> ''deep_hidden_dims'')), self)
      | Some hid \<Rightarrow>
     (let self = self\<lparr>hidden_dims := hid\<rparr> in
      case ck_dropout checkpoint of
        None \<Rightarrow> (Some (KeyError ''dropout''), self)
      | Some dr \<Rightarrow>
     (let self = self\<lparr>dropout := dr\<rparr> in
      case new_network w0 (variant self) (num_users self) (num_items self)
             (embedding_dim self) (hidden_dims self) (dropout self) of
        Inl e \<Rightarrow> (Some e, self)
      | Inr net \<Rightarrow>
     (let self = self\<lparr>model := Some net\<rparr> in
      case ck_model_state_dict checkpoint of
        None \<Rightarrow> (Some (KeyError ''model_state_dict''), self)
      | Some sd \<Rightarrow>
     (case load_state_dict net sd of
        Inl e \<Rightarrow> (Some e, self)
      | Inr net' \<Rightarrow> (None, self\<lparr>model := Some net', model_loaded := True\<rparr>))))))))))"

text \<open>
  The state a completed \<open>fit\<close> or \<open>restore\<close> leaves an instance in: servable, with
  a network that the constructor built from the instance's own recorded sizes and that
  holds some parameters. (Both methods assign the sizes, call the constructor on them and
  set \<open>model_loaded\<close> last; the training loop of \<open>fit\<close> is numeric and is not
  modelled.)
\<close>

definition trained :: "neural \<Rightarrow> bool" where
  "trained self \<longleftrightarrow>
     model_loaded self \<and>
     (case model self of
        None \<Rightarrow> False
      | Some net \<Rightarrow>
          new_network (net_score net) (variant self) (num_users self) (num_items self)
            (embedding_dim self) (hidden_dims self) (dropout self) = Inr net)"

section \<open>The recommender wrapper\<close>

text \<open>
  \<open>RecommenderWrapper\<close> holds the name and the instance of the active model. It reaches
  the model classes only through the registry and through the methods \<open>restore\<close> and
  \<open>recommend\<close> of the instance, so the model is generic in the instance type \<open>'m\<close>:
  \<open>model_to_cls name\<close> is the instance that calling the registered class without
  arguments returns, \<open>path_exists\<close> is \<^verbatim>\<open>os.path.exists\<close>, and \<open>restore_m\<close> and
  \<open>recommend_m\<close> are the two methods. The classes EASE and ItemKNN enter only this way.
  The wrapper's attribute \<open>model\<close> is the field \<open>wrapper_model\<close> and its method
  \<open>recommend\<close> is \<open>wrapper_recommend\<close>, the plain names being the model's.
\<close>

record 'm wrapper =
  model_name :: "string option"
  wrapper_model :: "'m option"

definition wrapper_init :: "'m wrapper" where
  "wrapper_init = \<lparr>model_name = None, wrapper_model = None\<rparr>"

definition BASE_DIR :: string where
  "BASE_DIR = ''recommend/ckpt''"

definition model_to_ckpt :: "string \<Rightarrow> string option" where
  "model_to_ckpt =
     map_of [(''EASE'', path_join BASE_DIR ''EASE_100.npy''),
             (''ItemKNN'', path_join BASE_DIR ''ItemKNN_100.npz''),
             (''NeuralMF'', path_join BASE_DIR ''NeuralMF_emb64.pth''),
             (''DeepFM'', path_join BASE_DIR ''DeepFM_emb64.pth'')]"

definition set_model ::
  "(string \<Rightarrow> 'm option) \<Rightarrow> (string \<Rightarrow> bool) \<Rightarrow> ('m \<Rightarrow> string \<Rightarrow> exn option \<times> 'm)
     \<Rightarrow> 'm wrapper \<Rightarrow> string \<Rightarrow> exn option \<times> 'm wrapper" where
  "set_model model_to_cls path_exists restore_m self new_model =
     (if model_name self \<noteq> Some new_model then
        (let self = self\<lparr>model_name := Some new_model\<rparr> in
         case model_to_cls new_model of
           None \<Rightarrow>
             (Some (KeyError (''Model '' @ new_model @ '' not found in model registry'')), self)
         | Some fresh \<Rightarrow>
        (let self = self\<lparr>wrapper_model := Some fresh\<rparr> in
         case model_to_ckpt new_model of
           None \<Rightarrow> (Some (KeyError new_model), self)
         | Some checkpoint_path \<Rightarrow>
             if \<not> path_exists checkpoint_path
             then (Some (FileNotFoundError checkpoint_path), self)
             else (case restore_m fresh checkpoint_path of
                     (err, restored) \<Rightarrow> (err, self\<lparr>wrapper_model := Some restored\<rparr>))))
      else (None, self))"

text \<open>
  The wrapper's \<open>recommend\<close>. The conversion \<^verbatim>\<open>int(i)\<close> is the identity on the
  integers the API layer passes; the model's \<open>recommend\<close> is called with its default
  \<open>top_k\<close>.
\<close>

definition wrapper_recommend ::
  "('m \<Rightarrow> int list \<Rightarrow> exn + int list) \<Rightarrow> 'm wrapper \<Rightarrow> int list \<Rightarrow> exn + int list" where
  "wrapper_recommend recommend_m self user_context =
     (case wrapper_model self of
        None \<Rightarrow> Inl no_model_loaded
      | Some m \<Rightarrow>
         (case model_name self of
            None \<Rightarrow> Inl model_name_not_set
          | Some name \<Rightarrow> recommend_m m (map (\<lambda>i. i) user_context)))"

text \<open>
  The registry entries whose classes are the two neural models, and the wrapper's view of
  their methods on a given file system and numeric library.
\<close>

definition neural_model_to_cls :: "string \<Rightarrow> neural option" where
  "neural_model_to_cls =
     map_of [(''NeuralMF'', neural_init NeuralMF), (''DeepFM'', neural_init DeepFM)]"

definition default_top_k :: int where
  "default_top_k = 10"

definition neural_set_model ::
  "(nat \<Rightarrow> nat \<Rightarrow> real) \<Rightarrow> filesystem \<Rightarrow> neural wrapper \<Rightarrow> string \<Rightarrow> exn option \<times> neural wrapper" where
  "neural_set_model w0 fs =
     set_model neural_model_to_cls (\<lambda>p. fs p \<noteq> None) (restore w0 fs)"

definition neural_wrapper_recommend ::
  "argpartition_fn \<Rightarrow> argsort_fn \<Rightarrow> neural wrapper \<Rightarrow> int list \<Rightarrow> exn + int list" where
  "neural_wrapper_recommend ap as =
     wrapper_recommend (\<lambda>m ctx. recommend ap as m ctx default_top_k)"

section \<open>Notions the claims are stated with\<close>

text \<open>The number of items whose score is not masked.\<close>

definition available :: "score list \<Rightarrow> nat" where
  "available scores = length (filter (\<lambda>s. s \<noteq> NegInf) scores)"

text \<open>
  Modelled on the specification's sentence, for comparison with \<open>top_k_select\<close>: the
  result has \<open>min k available\<close> entries, runs down the scores with equal scores in
  ascending index order, and every available item left out comes after every returned
  item in that order.
\<close>

definition ranks_before :: "score list \<Rightarrow> nat \<Rightarrow> nat \<Rightarrow> bool" where
  "ranks_before scores i j \<longleftrightarrow>
     scores ! j < scores ! i \<or> (scores ! j = scores ! i \<and> i < j)"

definition top_k_as_specified :: "score list \<Rightarrow> nat \<Rightarrow> nat list \<Rightarrow> bool" where
  "top_k_as_specified scores k r \<longleftrightarrow>
     length r = min k (available scores) \<and>
     sorted_wrt (ranks_before scores) r \<and>
     list_all (\<lambda>i. list_all (\<lambda>j. j \<in> set r \<or> scores ! j = NegInf \<or> ranks_before scores i j)
                      [0..<length scores]) r"

section \<open>Example instances\<close>

text \<open>
  A restored model of either class over 3 users and 4 items, in which item 2 scores 0.9
  for every user and the other items 0.5; three rating matrices, of the model's shape,
  larger and smaller; and a file system holding the model's checkpoint where the registry
  expects it.
\<close>

definition example_network :: "variant \<Rightarrow> network" where
  "example_network v =
     \<lparr>net_arch = \<lparr>a_variant = v, a_num_users = 3, a_num_items = 4,
                   a_embedding_dim = 64, a_hidden_dims = [128, 64]\<rparr>,
      net_dropout = 0.2,
      net_score = (\<lambda>u i. if i = 2 then 0.9 else 0.5)\<rparr>"

definition example_model :: "variant \<Rightarrow> neural" where
  "example_model v =
     (neural_init v)\<lparr>num_users := 3, num_items := 4,
                      model := Some (example_network v), model_loaded := True\<rparr>"


definition example_matrix :: "nat \<Rightarrow> nat \<Rightarrow> rating_matrix" where
  "example_matrix r c =
     \<lparr>nrows = r, ncols = c,
      entry = (\<lambda>u i. if (u, i) \<in> set [(0, 0), (0, 1), (1, 2)] then 1 else 0)\<rparr>"

definition example_fs :: "variant \<Rightarrow> filesystem" where
  "example_fs v =
     (case save (example_model v) BASE_DIR (\<lambda>p. None) of
        Inl e \<Rightarrow> (\<lambda>p. None)
      | Inr fs \<Rightarrow> fs)"

section \<open>Properties of the primitives\<close>

subsection \<open>The inference loop\<close>

lemma batch_size_pos: "0 < inference_batch_size" by (simp add: inference_batch_size_def)

lemma py_range_done: "stop \<le> start \<Longrightarrow> py_range start stop step = []"
  by (subst py_range.simps) simp

lemma py_range_step: "start < stop \<Longrightarrow> 0 < step \<Longrightarrow>
   py_range start stop step = start # py_range (start + step) stop step"
  by (subst py_range.simps) simp

lemma slice_upt: "j \<le> n \<Longrightarrow> slice [0..<n] i j = [i..<j]"
  by (cases "i \<le> j") (simp_all add: slice_def)  

lemma slice_replicate: "j \<le> n \<Longrightarrow> slice (replicate n u) i j = replicate (j - i) u"
  by (simp add: slice_def min_def)

lemma embedding_None: "list_all (\<lambda>i. i < rows) ids \<Longrightarrow> embedding rows ids = None"
  by (cases ids) (auto simp: embedding_def)

lemma forward_ok:
  assumes "u < a_num_users (net_arch net)" "j \<le> a_num_items (net_arch net)"
  shows "forward net (replicate (j - i) u) [i..<j] = Inr (map (\<lambda>k. Fin (net_score net u k)) [i..<j])"
proof -
  have 1: "embedding (a_num_users (net_arch net)) (replicate (j - i) u) = None"
    using assms(1) by (intro embedding_None) (simp add: list_all_iff)
  have 2: "embedding (a_num_items (net_arch net)) [i..<j] = None"
    using assms(2) by (intro embedding_None) (auto simp: list_all_iff)
  show ?thesis
    unfolding forward_def 1 2 by (auto intro!: nth_equalityI)
qed

lemma forward_fail:
  assumes ij: "i < j"
    and bad: "a_num_users (net_arch net) \<le> u \<or> a_num_items (net_arch net) < j"
  shows "forward net (replicate (j - i) u) [i..<j] = Inl (lookup_error net u)"
proof -
  have ne: "replicate (j - i) u \<noteq> []" "[i..<j] \<noteq> []" using ij by simp_all
  show ?thesis
  proof (cases "a_num_users (net_arch net) \<le> u")
    case True
    then have "embedding (a_num_users (net_arch net)) (replicate (j - i) u)
        = Some (if a_num_users (net_arch net) = 0 then embedding_table_empty
                else embedding_index_out_of_range)"
      using ne ij by (auto simp: embedding_def list_all_iff)
    with True show ?thesis by (simp add: forward_def lookup_error_def)
  next
    case False
    then have u: "u < a_num_users (net_arch net)" by simp
    with bad have it: "a_num_items (net_arch net) < j" by simp
    have 1: "embedding (a_num_users (net_arch net)) (replicate (j - i) u) = None"
      using u by (intro embedding_None) (simp add: list_all_iff)
    have "j - 1 \<in> set [i..<j]" using ij by auto
    moreover have "\<not> j - 1 < a_num_items (net_arch net)" using it by simp
    ultimately have "\<not> list_all (\<lambda>k. k < a_num_items (net_arch net)) [i..<j]"
      unfolding list_all_iff by blast
    then have "embedding (a_num_items (net_arch net)) [i..<j]
        = Some (if a_num_items (net_arch net) = 0 then embedding_table_empty
                else embedding_index_out_of_range)"
      using ne by (simp add: embedding_def)
    with 1 u show ?thesis by (simp add: forward_def lookup_error_def)
  qed
qed

lemma batch_loop_ok:
  assumes "u < a_num_users (net_arch net)" "n \<le> a_num_items (net_arch net)"
  shows "length acc = n \<Longrightarrow> take (min i n) acc = map (\<lambda>k. Fin (net_score net u k)) [0..<min i n] \<Longrightarrow>
    batch_loop net (replicate n u) [0..<n] n (py_range i n inference_batch_size) acc
      = Inr (map (\<lambda>k. Fin (net_score net u k)) [0..<n])"
proof (induction "n - i" arbitrary: i acc rule: less_induct)
  case less
  let ?g = "\<lambda>k. Fin (net_score net u k)"
  show ?case
  proof (cases "i < n")
    case False
    with less.prems have "acc = map ?g [0..<n]" by (simp add: min_def)
    with False show ?thesis by (simp add: py_range_done)
  next
    case True
    define e where "e = min (i + inference_batch_size) n"
    have e: "i < e" "e \<le> n" using True batch_size_pos by (auto simp: e_def)
    let ?acc' = "assign_slice acc i e (map ?g [i..<e])"
    have len: "length ?acc' = n" using e less.prems(1) by (simp add: assign_slice_def)
    have tk: "take i acc = map ?g [0..<i]" using less.prems(2) True by (simp add: min_def)
    have "take e ?acc' = map ?g [0..<i] @ map ?g [i..<e]"
      using e less.prems(1) tk by (simp add: assign_slice_def)
    also have "\<dots> = map ?g [0..<e]"
      using upt_add_eq_append[of 0 i "e - i"] e by simp
    finally have tk': "take (min (i + inference_batch_size) n) ?acc' = map ?g [0..<min (i + inference_batch_size) n]"
      by (simp add: e_def)
    have "n - (i + inference_batch_size) < n - i" using True batch_size_pos by simp
    from less.hyps[OF this len tk']
    have IH: "batch_loop net (replicate n u) [0..<n] n
        (py_range (i + inference_batch_size) n inference_batch_size) ?acc' = Inr (map ?g [0..<n])" .
    have fw: "forward net (slice (replicate n u) i e) (slice [0..<n] i e) = Inr (map ?g [i..<e])"
      using e assms by (simp add: slice_upt slice_replicate forward_ok)
    have pr: "py_range i n inference_batch_size = i # py_range (i + inference_batch_size) n inference_batch_size"
      using True by (simp add: py_range_step batch_size_pos)
    show ?thesis
      unfolding pr by (simp only: batch_loop.simps Let_def e_def[symmetric] fw sum.case IH)
  qed
qed

lemma batch_loop_fail:
  assumes "a_num_users (net_arch net) \<le> u \<or> a_num_items (net_arch net) < n"
  shows "i < n \<Longrightarrow>
    batch_loop net (replicate n u) [0..<n] n (py_range i n inference_batch_size) acc
      = Inl (lookup_error net u)"
proof (induction "n - i" arbitrary: i acc rule: less_induct)
  case less
  define e where "e = min (i + inference_batch_size) n"
  have e: "i < e" "e \<le> n" using less.prems batch_size_pos by (auto simp: e_def)
  have pr: "py_range i n inference_batch_size = i # py_range (i + inference_batch_size) n inference_batch_size"
    using less.prems by (simp add: py_range_step batch_size_pos)
  show ?case
  proof (cases "a_num_users (net_arch net) \<le> u \<or> a_num_items (net_arch net) < e")
    case True
    then have "forward net (slice (replicate n u) i e) (slice [0..<n] i e) = Inl (lookup_error net u)"
      using e by (simp add: slice_upt slice_replicate forward_fail)
    then show ?thesis
      unfolding pr by (simp only: batch_loop.simps Let_def e_def[symmetric] sum.case)
  next
    case False
    then have ok: "u < a_num_users (net_arch net)" "e \<le> a_num_items (net_arch net)" by auto
    with assms have "e < n" by auto
    then have e': "e = i + inference_batch_size" by (auto simp: e_def min_def split: if_splits)
    have fw: "forward net (slice (replicate n u) i e) (slice [0..<n] i e)
        = Inr (map (\<lambda>k. Fin (net_score net u k)) [i..<e])"
      using e ok by (simp add: slice_upt slice_replicate forward_ok)
    have "n - (i + inference_batch_size) < n - i" using less.prems batch_size_pos by simp
    from less.hyps[OF this] \<open>e < n\<close> e'
    have IH: "\<And>acc. batch_loop net (replicate n u) [0..<n] n
        (py_range (i + inference_batch_size) n inference_batch_size) acc = Inl (lookup_error net u)"
      by simp
    show ?thesis
      unfolding pr by (simp only: batch_loop.simps Let_def e_def[symmetric] fw sum.case IH)
  qed
qed

lemma score_items_ok:
  "u < a_num_users (net_arch net) \<Longrightarrow> n \<le> a_num_items (net_arch net) \<Longrightarrow>
   score_items net u n = Inr (map (\<lambda>k. Fin (net_score net u k)) [0..<n])"
  unfolding score_items_def by (rule batch_loop_ok) (simp_all add: np_zeros_def)

lemma score_items_empty: "score_items net u 0 = Inr []"
  unfolding score_items_def by (simp add: py_range_done np_zeros_def)

lemma score_items_fail:
  "0 < n \<Longrightarrow> a_num_users (net_arch net) \<le> u \<or> a_num_items (net_arch net) < n \<Longrightarrow>
   score_items net u n = Inl (lookup_error net u)"
  unfolding score_items_def by (rule batch_loop_fail) simp_all

subsection \<open>Masking and selection\<close>

lemma negate_le [simp]: "negate x \<le> negate y \<longleftrightarrow> y \<le> x"
  by (cases x; cases y) (simp_all add: less_eq_score_def)

lemma le_NegInf [simp]: "x \<le> NegInf \<longleftrightarrow> x = NegInf"
  by (cases x) (simp_all add: less_eq_score_def)

lemma index_perm_length: "index_perm p n \<Longrightarrow> length p = n"
  unfolding index_perm_def by (metis distinct_card card_atLeastLessThan diff_zero)

lemma index_perm_nth: "index_perm p n \<Longrightarrow> i < n \<Longrightarrow> p ! i < n"
  using index_perm_length[of p n] unfolding index_perm_def
  by (metis atLeastLessThan_iff nth_mem)

lemma fold_mask_length: "length (fold (\<lambda>i s. s[f i := v]) ctx s) = length s"
  by (induction ctx arbitrary: s) simp_all

lemma fold_mask_nth:
  "j < length s \<Longrightarrow> fold (\<lambda>i s. s[f i := v]) ctx s ! j = (if j \<in> f ` set ctx then v else s ! j)"
  by (induction ctx arbitrary: s) (auto simp: fold_mask_length nth_list_update)

lemma index_array_in_bounds:
  "list_all (index_ok n) ctx \<Longrightarrow> index_array n ctx = Inr ctx"
  by (simp add: index_array_def)

lemma mask_context_ok:
  assumes "list_all (index_ok (length s)) ctx"
  shows "mask_context s ctx = Inr (map (\<lambda>j. if j \<in> norm_index (length s) ` set ctx then NegInf else s ! j) [0..<length s])"
  using assms unfolding mask_context_def
  by (auto intro!: nth_equalityI simp: index_array_in_bounds fold_mask_length fold_mask_nth)

lemma top_k_select_value:
  assumes ap: "argpartition_lawful ap" and k: "0 \<le> k" "k < int (length scores)"
  shows "top_k_select ap as scores k =
     take_idx (take (nat k) (ap (map negate scores) (nat k)))
       (as (map (\<lambda>i. negate (scores ! i)) (take (nat k) (ap (map negate scores) (nat k)))))"
proof -
  let ?a = "map negate scores" let ?p = "ap ?a (nat k)"
  have kk: "nat k < length ?a" using k by simp
  have perm: "index_perm ?p (length scores)"
    using ap kk unfolding argpartition_lawful_def by (metis length_map)
  have "np_argpartition ap ?a k = Inr ?p"
    using k kk by (auto simp add: np_argpartition_def index_scalar_def index_ok_def norm_index_def)
  moreover have "?a \<noteq> []" using kk by auto
  moreover have "py_take ?p k = take (nat k) ?p" using k by (simp add: py_take_def)
  moreover have "take_idx scores (take (nat k) ?p) = Inr (map (\<lambda>i. scores ! i) (take (nat k) ?p))"
    using perm unfolding take_idx_def list_all_iff index_perm_def
    by (auto dest!: in_set_takeD)
  ultimately show ?thesis by (simp add: top_k_select_def Let_def comp_def)
qed

lemma top_k_select_lawful:
  assumes ap: "argpartition_lawful ap" and as: "argsort_lawful as"
    and k: "0 \<le> k" "k < int (length scores)"
  shows "\<exists>r. top_k_select ap as scores k = Inr r \<and> length r = nat k \<and> distinct r
      \<and> set r \<subseteq> {0..<length scores}
      \<and> sorted_wrt (\<lambda>i j. scores ! j \<le> scores ! i) r
      \<and> (\<forall>i\<in>set r. \<forall>j<length scores. j \<notin> set r \<longrightarrow> scores ! j \<le> scores ! i)"
proof -
  define n where "n = length scores"
  define K where "K = nat k"
  define a where "a = map negate scores"
  define p where "p = ap a K"
  define top where "top = take K p"
  define ts where "ts = map (\<lambda>i. negate (scores ! i)) top"
  define q where "q = as ts"
  define r where "r = map (\<lambda>j. top ! j) q"
  have Kn: "K < n" using k by (simp add: K_def n_def)
  have la: "length a = n" by (simp add: a_def n_def)
  have lawp: "index_perm p n"
    "\<And>i. i < K \<Longrightarrow> a ! (p ! i) \<le> a ! (p ! K)"
    "\<And>i. K < i \<Longrightarrow> i < n \<Longrightarrow> a ! (p ! K) \<le> a ! (p ! i)"
    using ap Kn la unfolding argpartition_lawful_def p_def by auto
  have lp: "length p = n" using lawp(1) by (rule index_perm_length)
  have dp: "distinct p" and sp: "set p = {0..<n}" using lawp(1) by (auto simp: index_perm_def)
  have ltop: "length top = K" using Kn lp by (simp add: top_def)
  have dtop: "distinct top" using dp by (simp add: top_def)
  have stop: "set top \<subseteq> {0..<n}" using sp by (auto simp: top_def dest: in_set_takeD)
  have lts: "length ts = K" by (simp add: ts_def ltop)
  have lawq: "index_perm q K" "sorted (map (\<lambda>i. ts ! i) q)"
    using as lts unfolding argsort_lawful_def q_def by auto
  have dq: "distinct q" and sq: "set q = {0..<K}" using lawq(1) by (auto simp: index_perm_def)
  have lq: "length q = K" using lawq(1) by (rule index_perm_length)
  have val: "top_k_select ap as scores k = take_idx top q"
    using top_k_select_value[OF ap k, of as]
    by (simp add: top_def p_def a_def K_def q_def ts_def)
  have "take_idx top q = Inr r"
    using sq ltop by (simp add: take_idx_def list_all_iff r_def)
  with val have 1: "top_k_select ap as scores k = Inr r" by simp
  have 2: "length r = nat k" by (simp add: r_def lq K_def)
  have inj: "inj_on (\<lambda>j. top ! j) (set q)"
    using dtop ltop sq by (auto simp: inj_on_def nth_eq_iff_index_eq)
  have 3: "distinct r" using dq inj by (simp add: r_def distinct_map)
  have setr: "set r = set top"
  proof -
    have "set r = (\<lambda>j. top ! j) ` {0..<K}" by (simp add: r_def sq)
    also have "\<dots> = set top" using ltop by (auto simp: set_conv_nth)
    finally show ?thesis .
  qed
  have 4: "set r \<subseteq> {0..<length scores}" using setr stop by (simp add: n_def)
  have "sorted_wrt (\<lambda>x y. ts ! x \<le> ts ! y) q"
    using lawq(2) by (simp add: sorted_map)
  then have "sorted_wrt (\<lambda>x y. scores ! (top ! y) \<le> scores ! (top ! x)) q"
  proof (rule sorted_wrt_mono_rel[rotated])
    fix x y assume "x \<in> set q" "y \<in> set q" "ts ! x \<le> ts ! y"
    then show "scores ! (top ! y) \<le> scores ! (top ! x)"
      using sq ltop by (simp add: ts_def)
  qed
  then have 5: "sorted_wrt (\<lambda>i j. scores ! j \<le> scores ! i) r"
    by (simp add: r_def sorted_wrt_map)
  have 6: "\<forall>i\<in>set r. \<forall>j<length scores. j \<notin> set r \<longrightarrow> scores ! j \<le> scores ! i"
  proof (intro ballI allI impI)
    fix i j assume i: "i \<in> set r" and j: "j < length scores" "j \<notin> set r"
    from i setr obtain s where s: "s < K" "i = top ! s"
      using ltop by (auto simp: set_conv_nth)
    then have ips: "i = p ! s" by (simp add: top_def)
    from j sp have "j \<in> set p" by (simp add: n_def)
    then obtain t where t: "t < n" "j = p ! t" using lp by (auto simp: set_conv_nth)
    have "\<not> t < K"
    proof
      assume "t < K"
      then have "j = top ! t" using t by (simp add: top_def)
      then have "j \<in> set top" using \<open>t < K\<close> ltop by simp
      with j setr show False by simp
    qed
    then have "a ! (p ! K) \<le> a ! (p ! t)"
      using lawp(3)[of t] t by (cases "t = K") auto
    moreover have "a ! (p ! s) \<le> a ! (p ! K)" using lawp(2) s by simp
    ultimately have "a ! i \<le> a ! j" using ips t by simp
    moreover have "i < n" using i 4 by (auto simp: n_def)
    ultimately show "scores ! j \<le> scores ! i"
      using j by (simp add: a_def n_def)
  qed
  from 1 2 3 4 5 6 show ?thesis by blast
qed

lemma top_k_select_unmasked:
  assumes r: "distinct r" "set r \<subseteq> {0..<length scores}"
    "\<forall>i\<in>set r. \<forall>j<length scores. j \<notin> set r \<longrightarrow> scores ! j \<le> scores ! i"
    and av: "length r \<le> available scores"
  shows "\<forall>i\<in>set r. scores ! i \<noteq> NegInf"
proof (rule ccontr)
  assume "\<not> ?thesis"
  then obtain i where i: "i \<in> set r" "scores ! i = NegInf" by auto
  let ?A = "{j. j < length scores \<and> scores ! j \<noteq> NegInf}"
  have "?A \<subseteq> set r - {i}"
  proof
    fix j assume "j \<in> ?A"
    then have j: "j < length scores" "scores ! j \<noteq> NegInf" by auto
    have "j \<in> set r"
    proof (rule ccontr)
      assume "j \<notin> set r"
      with r(3) i j have "scores ! j \<le> NegInf" by metis
      with j show False by simp
    qed
    with i j show "j \<in> set r - {i}" by auto
  qed
  then have "card ?A \<le> card (set r - {i})" by (simp add: card_mono)
  also have "\<dots> < card (set r)" using i by (intro card_Diff1_less) simp_all
  also have "\<dots> = length r" using r(1) by (simp add: distinct_card)
  finally have "card ?A < length r" .
  moreover have "available scores = card ?A"
    unfolding available_def by (simp add: length_filter_conv_card)
  ultimately show False using av by simp
qed

lemma stable_argsort_lawful: "argsort_lawful stable_argsort"
  unfolding argsort_lawful_def stable_argsort_def index_perm_def by simp

lemma backward_argsort_lawful: "argsort_lawful backward_argsort"
  unfolding argsort_lawful_def backward_argsort_def index_perm_def by simp

lemma sorted_argpartition:
  assumes "index_perm p (length a)" "sorted (map (\<lambda>i. a ! i) p)"
  shows "kth < length a \<longrightarrow>
        index_perm p (length a) \<and>
        (\<forall>i. i < kth \<longrightarrow> a ! (p ! i) \<le> a ! (p ! kth)) \<and>
        (\<forall>i. kth < i \<and> i < length a \<longrightarrow> a ! (p ! kth) \<le> a ! (p ! i))"
proof (intro impI conjI allI)
  assume k: "kth < length a"
  have lp: "length p = length a" using assms(1) by (rule index_perm_length)
  show "index_perm p (length a)" by fact
  { fix i assume "i < kth"
    then have "map (\<lambda>i. a ! i) p ! i \<le> map (\<lambda>i. a ! i) p ! kth"
      using assms(2) k lp by (intro sorted_nth_mono) simp_all
    then show "a ! (p ! i) \<le> a ! (p ! kth)" using \<open>i < kth\<close> k lp by simp }
  { fix i assume "kth < i \<and> i < length a"
    then have "map (\<lambda>i. a ! i) p ! kth \<le> map (\<lambda>i. a ! i) p ! i"
      using assms(2) k lp by (intro sorted_nth_mono) simp_all
    then show "a ! (p ! kth) \<le> a ! (p ! i)" using \<open>kth < i \<and> i < length a\<close> k lp by simp }
qed

lemma stable_argpartition_lawful: "argpartition_lawful stable_argpartition"
  unfolding argpartition_lawful_def stable_argpartition_def
  using sorted_argpartition stable_argsort_lawful unfolding argsort_lawful_def by blast

lemma backward_argpartition_lawful: "argpartition_lawful backward_argpartition"
  unfolding argpartition_lawful_def backward_argpartition_def
  using sorted_argpartition backward_argsort_lawful unfolding argsort_lawful_def by blast

lemma score_items_length: "score_items net u n = Inr s \<Longrightarrow> length s = n"
proof (cases "n = 0")
  case True
  assume "score_items net u n = Inr s"
  with True show ?thesis by (simp add: score_items_empty)
next
  case False
  assume r: "score_items net u n = Inr s"
  show ?thesis
  proof (cases "a_num_users (net_arch net) \<le> u \<or> a_num_items (net_arch net) < n")
    case True
    with False r show ?thesis by (simp add: score_items_fail)
  next
    case False
    with r show ?thesis by (auto simp: score_items_ok)
  qed
qed

lemma mask_context_length: "mask_context s ctx = Inr s' \<Longrightarrow> length s' = length s"
  unfolding mask_context_def by (auto simp: fold_mask_length split: if_splits sum.splits)

lemma context_scores_length: "context_scores net n ctx = Inr s \<Longrightarrow> length s = n"
  unfolding context_scores_def
  by (auto split: sum.splits dest: score_items_length mask_context_length)

lemma context_scores_ok:
  assumes "0 < a_num_users (net_arch net)" "n \<le> a_num_items (net_arch net)"
    "list_all (index_ok n) ctx"
  shows "context_scores net n ctx =
    Inr (map (\<lambda>j. if j \<in> norm_index n ` set ctx then NegInf else Fin (net_score net 0 j)) [0..<n])"
  using assms by (simp add: context_scores_def score_items_ok mask_context_ok cong: map_cong)

lemma index_array_length: "index_array n ctx = Inr idx \<Longrightarrow> length idx = length ctx"
  by (auto simp: index_array_def split: if_splits)

lemma context_empty_array: "ctx \<noteq> [] \<Longrightarrow> \<exists>e. mask_context [] ctx = Inl e"
proof (cases "index_array 0 ctx")
  case (Inl e)
  then show ?thesis by (simp add: mask_context_def)
next
  case (Inr idx)
  assume "ctx \<noteq> []"
  with Inr have "idx \<noteq> []" using index_array_length by fastforce
  then have "\<not> list_all (index_ok 0) idx" by (cases idx) (simp_all add: index_ok_def)
  with Inr show ?thesis by (simp add: mask_context_def)
qed

subsection \<open>Trained instances and the examples\<close>

lemma trained_model:
  assumes "trained self"
  obtains net where "model self = Some net" "model_loaded self"
    "a_num_users (net_arch net) = num_users self" "a_num_items (net_arch net) = num_items self"
    "net_arch net = \<lparr>a_variant = variant self, a_num_users = num_users self,
        a_num_items = num_items self, a_embedding_dim = embedding_dim self,
        a_hidden_dims = hidden_dims self\<rparr>"
    "net_dropout net = dropout self"
    "\<not> (variant self = DeepFM \<and> hidden_dims self = [])"
proof (cases "model self")
  case None
  with assms show ?thesis by (simp add: trained_def)
next
  case (Some net)
  with assms have ld: "model_loaded self" and
    nn: "new_network (net_score net) (variant self) (num_users self) (num_items self)
            (embedding_dim self) (hidden_dims self) (dropout self) = Inr net"
    by (simp_all add: trained_def)
  from nn have ok: "\<not> (variant self = DeepFM \<and> hidden_dims self = [])"
    by (auto simp: new_network_def split: if_splits)
  with nn have eq: "net = \<lparr>net_arch = \<lparr>a_variant = variant self, a_num_users = num_users self,
        a_num_items = num_items self, a_embedding_dim = embedding_dim self,
        a_hidden_dims = hidden_dims self\<rparr>, net_dropout = dropout self, net_score = net_score net\<rparr>"
    by (auto simp: new_network_def split: if_splits)
  have a: "net_arch net = \<lparr>a_variant = variant self, a_num_users = num_users self,
        a_num_items = num_items self, a_embedding_dim = embedding_dim self,
        a_hidden_dims = hidden_dims self\<rparr>" by (subst eq) simp
  have d: "net_dropout net = dropout self" by (subst eq) simp
  show ?thesis using that[OF Some ld _ _ a d ok] a by simp
qed

lemma trained_example: "trained (example_model v)"
  by (cases v) (simp_all add: trained_def example_model_def example_network_def neural_init_def new_network_def)

text \<open>The example checkpoint, the registry and the example wrapper, for the concrete runs.\<close>

lemma BASE_DIR_nonempty: "BASE_DIR \<noteq> []"
  by (simp add: BASE_DIR_def)

lemma example_checkpoint_path:
  "path_join BASE_DIR (save_filename (example_model NeuralMF)) = ''recommend/ckpt/NeuralMF_emb64.pth''"
  "path_join BASE_DIR (save_filename (example_model DeepFM)) = ''recommend/ckpt/DeepFM_emb64.pth''"
  "model_to_ckpt ''NeuralMF'' = Some ''recommend/ckpt/NeuralMF_emb64.pth''"
  "model_to_ckpt ''DeepFM'' = Some ''recommend/ckpt/DeepFM_emb64.pth''"
  by code_simp+

lemma restore_example:
  "restore w0 (example_fs v) (neural_init v) (path_join BASE_DIR (save_filename (example_model v)))
     = (None, example_model v)"
  by (cases v)
     (simp_all add: example_fs_def save_def restore_def Let_def example_model_def example_network_def
        neural_init_def new_network_def load_state_dict_def get_state_dict_def empty_checkpoint_def
        BASE_DIR_def)

lemma example_fs_files:
  "example_fs NeuralMF ''recommend/ckpt/NeuralMF_emb64.pth'' \<noteq> None"
  "example_fs NeuralMF ''recommend/ckpt/DeepFM_emb64.pth'' = None"
proof -
  have m: "model (example_model NeuralMF) = Some (example_network NeuralMF)"
    by (simp add: example_model_def)
  show "example_fs NeuralMF ''recommend/ckpt/NeuralMF_emb64.pth'' \<noteq> None"
    by (simp add: example_fs_def save_def Let_def m example_checkpoint_path BASE_DIR_nonempty)
  show "example_fs NeuralMF ''recommend/ckpt/DeepFM_emb64.pth'' = None"
    by (simp add: example_fs_def save_def Let_def m example_checkpoint_path BASE_DIR_nonempty)
qed

lemma neural_registry:
  "neural_model_to_cls ''NeuralMF'' = Some (neural_init NeuralMF)"
  "neural_model_to_cls ''DeepFM'' = Some (neural_init DeepFM)"
  "neural_model_to_cls ''SVD'' = None"
  by (simp_all add: neural_model_to_cls_def)

lemma set_model_example:
  "neural_set_model w0 (example_fs NeuralMF) wrapper_init ''NeuralMF''
     = (None, \<lparr>model_name = Some ''NeuralMF'', wrapper_model = Some (example_model NeuralMF)\<rparr>)"
  using restore_example[of w0 NeuralMF]
  by (simp add: neural_set_model_def set_model_def wrapper_init_def neural_registry
        example_checkpoint_path example_fs_files Let_def)

lemma restore_empty_checkpoint:
  "restore w0 (\<lambda>p. if p = ''recommend/ckpt/DeepFM_emb64.pth'' then Some empty_checkpoint else None)
      (neural_init DeepFM) ''recommend/ckpt/DeepFM_emb64.pth''
     = (Some (KeyError ''num_users''), neural_init DeepFM)"
  by (simp add: restore_def empty_checkpoint_def)

section \<open>The model's recommend\<close>

text \<open>
  Claim C8. For a loaded model of either class, \<open>recommend\<close> on the empty context
  returns the empty list, and nothing of the scoring path runs: the result does not
  depend on the network (the instance may even have none, in which case every later step
  would raise), on the numeric library or on \<open>top_k\<close> (a \<open>top_k\<close> the selection would
  reject included).
\<close>

theorem recommend_empty_context:
  "model_loaded self \<Longrightarrow> recommend ap as self [] top_k = Inr []"
  by (simp add: recommend_def)

text \<open>
  The witness is a loaded instance without a network, with a library that returns no
  indices at all.
\<close>

theorem recommend_empty_context_witness:
  "model_loaded ((neural_init DeepFM)\<lparr>model_loaded := True\<rparr>)
   \<and> model ((neural_init DeepFM)\<lparr>model_loaded := True\<rparr>) = None
   \<and> recommend (\<lambda>a k. []) (\<lambda>a. []) ((neural_init DeepFM)\<lparr>model_loaded := True\<rparr>) [] 10 = Inr []"
  using recommend_empty_context[of "(neural_init DeepFM)\<lparr>model_loaded := True\<rparr>" "\<lambda>a k. []" "\<lambda>a. []" 10]
  by (simp add: neural_init_def)

text \<open>
  Claim C10, as the code has it. With a nonempty context, \<open>recommend\<close> raises instead
  of returning the available items whenever \<open>num_items \<le> top_k\<close> and \<open>top_k\<close> is
  either below \<open>2^64 - num_items\<close> or not below \<open>2^64\<close>, for every numeric library.
  When the scoring and the masking go through (a network with a user row 0 and an item
  row for every item, a context of valid indices), the exception is the ValueError that
  \<^verbatim>\<open>np.argpartition\<close> raises for a \<open>kth\<close> out of bounds in the first case, and its
  TypeError for a \<open>kth\<close> that is no 64-bit integer in the second.
\<close>

theorem recommend_top_k_not_below_num_items:
  assumes "model_loaded self" "user_context \<noteq> []" "int (num_items self) \<le> top_k"
    and "top_k < 2 ^ 64 - int (num_items self) \<or> 2 ^ 64 \<le> top_k"
  shows "(\<exists>e. recommend ap as self user_context top_k = Inl e) \<and>
         (\<forall>net. model self = Some net \<and> 0 < a_num_users (net_arch net)
                \<and> num_items self \<le> a_num_items (net_arch net)
                \<and> list_all (index_ok (num_items self)) user_context
            \<longrightarrow> recommend ap as self user_context top_k
                  = Inl (if top_k < 2 ^ 64 then kth_out_of_bounds else kth_not_integer))"
proof -
  have sel: "top_k_select ap as scores top_k
      = Inl (if top_k < 2 ^ 64 then kth_out_of_bounds else kth_not_integer)"
    if "length scores = num_items self" "scores \<noteq> []" for scores
  proof -
    have nb: "\<not> index_ok (num_items self) top_k" using assms(3) by (simp add: index_ok_def)
    have "np_argpartition ap (map negate scores) top_k
        = Inl (if top_k < 2 ^ 64 then kth_out_of_bounds else kth_not_integer)"
    proof (cases "int64_ok top_k")
      case True
      then have "top_k < 2 ^ 64" by (simp add: int64_ok_def)
      with True nb that show ?thesis by (simp add: np_argpartition_def index_scalar_def)
    next
      case False
      show ?thesis
      proof (cases "top_k < 2 ^ 64")
        case True
        with False assms(3) have u: "uint64_ok top_k" "2 ^ 63 \<le> top_k"
          by (simp_all add: uint64_ok_def int64_ok_def)
        from True assms(4) have "top_k < 2 ^ 64 - int (num_items self)" by simp
        then have "\<not> index_ok (num_items self) (uint64_as_int64 top_k)"
          using u(2) by (simp add: index_ok_def uint64_as_int64_def)
        with True False nb u that show ?thesis
          by (simp add: np_argpartition_def index_scalar_def)
      next
        case False
        then have "\<not> uint64_ok top_k" "\<not> int64_ok top_k"
          by (simp_all add: uint64_ok_def int64_ok_def)
        with False nb that show ?thesis by (simp add: np_argpartition_def index_scalar_def)
      qed
    qed
    then show ?thesis by (simp add: top_k_select_def)
  qed
  have nonempty: "scores \<noteq> []" if "context_scores net (num_items self) user_context = Inr scores" for net scores
  proof
    assume "scores = []"
    with that have n: "num_items self = 0" using context_scores_length by fastforce
    from context_empty_array[OF assms(2)] obtain e where "mask_context [] user_context = Inl e" ..
    with that n show False
      by (simp add: context_scores_def score_items_empty)
  qed
  have 1: "\<exists>e. recommend ap as self user_context top_k = Inl e"
  proof (cases "model self")
    case None
    with assms show ?thesis by (simp add: recommend_def)
  next
    case (Some net)
    show ?thesis
    proof (cases "context_scores net (num_items self) user_context")
      case (Inl e)
      with Some assms show ?thesis by (simp add: recommend_def)
    next
      case (Inr scores)
      then have "top_k_select ap as scores top_k
          = Inl (if top_k < 2 ^ 64 then kth_out_of_bounds else kth_not_integer)"
        using sel context_scores_length nonempty by blast
      with Inr Some assms show ?thesis by (simp add: recommend_def)
    qed
  qed
  have 2: "recommend ap as self user_context top_k
      = Inl (if top_k < 2 ^ 64 then kth_out_of_bounds else kth_not_integer)"
    if h: "model self = Some net" "0 < a_num_users (net_arch net)"
      "num_items self \<le> a_num_items (net_arch net)"
      "list_all (index_ok (num_items self)) user_context" for net
  proof -
    obtain scores where s: "context_scores net (num_items self) user_context = Inr scores"
      using context_scores_ok[OF h(2,3,4)] by blast
    then have "top_k_select ap as scores top_k
        = Inl (if top_k < 2 ^ 64 then kth_out_of_bounds else kth_not_integer)"
      using sel context_scores_length nonempty by blast
    with s h assms show ?thesis by (simp add: recommend_def)
  qed
  from 1 2 show ?thesis by blast
qed

text \<open>
  The witness: the wrapper's default \<open>top_k = 10\<close> on a catalogue of 4 items, and
  \<open>top_k = 2^64\<close>.
\<close>

theorem recommend_top_k_not_below_num_items_witness:
  "model_loaded (example_model DeepFM) \<and> [0, 1] \<noteq> ([] :: int list)
   \<and> int (num_items (example_model DeepFM)) \<le> default_top_k
   \<and> default_top_k < 2 ^ 64 - int (num_items (example_model DeepFM))
   \<and> recommend stable_argpartition stable_argsort (example_model DeepFM) [0, 1] default_top_k
        = Inl kth_out_of_bounds
   \<and> int (num_items (example_model DeepFM)) \<le> 2 ^ 64 \<and> (2 ^ 64 :: int) \<le> 2 ^ 64
   \<and> recommend stable_argpartition stable_argsort (example_model DeepFM) [0, 1] (2 ^ 64)
        = Inl kth_not_integer"
proof -
  have h1: "model_loaded (example_model DeepFM)" by code_simp
  have h2: "[0, 1] \<noteq> ([] :: int list)" by simp
  have h3: "int (num_items (example_model DeepFM)) \<le> default_top_k"
    by (simp add: example_model_def default_top_k_def)
  have h4: "default_top_k < 2 ^ 64 - int (num_items (example_model DeepFM))"
    by (simp add: example_model_def default_top_k_def)
  have h3': "int (num_items (example_model DeepFM)) \<le> 2 ^ 64"
    by (simp add: example_model_def)
  have h4': "(2 ^ 64 :: int) \<le> 2 ^ 64" by simp
  have m: "model (example_model DeepFM) = Some (example_network DeepFM)
      \<and> 0 < a_num_users (net_arch (example_network DeepFM))
      \<and> num_items (example_model DeepFM) \<le> a_num_items (net_arch (example_network DeepFM))
      \<and> list_all (index_ok (num_items (example_model DeepFM))) [0, 1]"
    by (simp add: example_model_def example_network_def index_ok_def)
  note t = recommend_top_k_not_below_num_items[OF h1 h2 h3 disjI1[OF h4], of stable_argpartition stable_argsort]
  note t' = recommend_top_k_not_below_num_items[OF h1 h2 h3' disjI2[OF h4'], of stable_argpartition stable_argsort]
  from t m have a: "recommend stable_argpartition stable_argsort (example_model DeepFM) [0, 1] default_top_k
        = Inl kth_out_of_bounds" by (simp add: default_top_k_def)
  from t' m have b: "recommend stable_argpartition stable_argsort (example_model DeepFM) [0, 1] (2 ^ 64)
        = Inl kth_not_integer" by simp
  from a b h1 h2 h3 h4 h3' h4' show ?thesis by blast
qed

text \<open>
  Claim C10 as stated covers every \<open>top_k\<close> from \<open>num_items\<close> on. numpy reads a
  \<open>kth\<close> between \<open>2^64 - num_items\<close> and \<open>2^64\<close> as a negative 64-bit index, which is
  within the bounds: at \<open>top_k = 2^64 - 1\<close> on a catalogue of 4 items \<open>recommend\<close>
  returns, with all four items (the masked one last).
\<close>

lemma py_take_all: "int (length xs) \<le> k \<Longrightarrow> py_take xs k = xs"
  by (simp add: py_take_def)

theorem recommend_top_k_wraps_to_valid_index:
  "model_loaded (example_model NeuralMF)
   \<and> int (num_items (example_model NeuralMF)) \<le> 18446744073709551615
   \<and> recommend stable_argpartition stable_argsort (example_model NeuralMF) [0] 18446744073709551615
        = Inr [2, 1, 3, 0]"
proof -
  let ?S = "[NegInf, Fin 0.5, Fin 0.9, Fin 0.5]"
  have l: "model_loaded (example_model NeuralMF)" by code_simp
  have n: "int (num_items (example_model NeuralMF)) \<le> 18446744073709551615"
    by (simp add: example_model_def)
  have m: "model (example_model NeuralMF) = Some (example_network NeuralMF)"
    "num_items (example_model NeuralMF) = 4"
    by (simp_all add: example_model_def)
  have cs: "context_scores (example_network NeuralMF) 4 [0] = Inr ?S" by code_simp
  have k: "index_scalar 4 18446744073709551615 = Inr (- 1)"
    by (simp add: index_scalar_def int64_ok_def index_ok_def uint64_ok_def uint64_as_int64_def)
  have p: "stable_argpartition (map negate ?S) (norm_index 4 (- 1)) = [2, 1, 3, 0]" by code_simp
  have a: "np_argpartition stable_argpartition (map negate ?S) 18446744073709551615 = Inr [2, 1, 3, 0]"
  proof -
    have len: "length (map negate ?S) = 4" by simp
    have ne: "map negate ?S \<noteq> []" by simp
    have ok: "index_ok 4 (- 1)" by (simp add: index_ok_def)
    show ?thesis
      unfolding np_argpartition_def len k by (simp only: sum.case ne ok if_False if_True p)
  qed
  have b: "py_take [2, 1, 3, 0 :: nat] 18446744073709551615 = [2, 1, 3, 0]"
    by (simp add: py_take_all)
  have c: "take_idx ?S [2, 1, 3, 0] = Inr [Fin 0.9, Fin 0.5, Fin 0.5, NegInf]" by code_simp
  have d: "take_idx [2, 1, 3, 0 :: nat] (stable_argsort (map negate [Fin 0.9, Fin 0.5, Fin 0.5, NegInf]))
      = Inr [2, 1, 3, 0]" by code_simp
  have "top_k_select stable_argpartition stable_argsort ?S 18446744073709551615 = Inr [2, 1, 3, 0]"
    unfolding top_k_select_def a by (simp only: sum.case Let_def b c d)
  then have "recommend stable_argpartition stable_argsort (example_model NeuralMF) [0] 18446744073709551615
        = Inr [2, 1, 3, 0]"
    using l m cs by (simp add: recommend_def)
  with l n show ?thesis by blast
qed

text \<open>
  Claim C2, as the code has it. For a lawful numeric library, \<open>0 \<le> k < numItems\<close>
  and at least \<open>k\<close> unmasked scores, the selection returns exactly
  \<open>k = min k available\<close> distinct item indices, none of them masked, in non-increasing
  order of score, and no item left out scores higher than a returned one. The order among
  equal scores is whatever the library's selection and sort leave. (With fewer than \<open>k\<close>
  unmasked scores see claim C3.)
\<close>

theorem top_k_select_sorted_top_k:
  assumes "argpartition_lawful ap" "argsort_lawful as"
    and "0 \<le> k" "k < int (length scores)" "nat k \<le> available scores"
  shows "\<exists>r. top_k_select ap as scores k = Inr r
      \<and> length r = min (nat k) (available scores)
      \<and> distinct r \<and> set r \<subseteq> {0..<length scores}
      \<and> (\<forall>i\<in>set r. scores ! i \<noteq> NegInf)
      \<and> sorted_wrt (\<lambda>i j. scores ! j \<le> scores ! i) r
      \<and> (\<forall>i\<in>set r. \<forall>j<length scores. j \<notin> set r \<longrightarrow> scores ! j \<le> scores ! i)"
proof -
  from top_k_select_lawful[OF assms(1,2,3,4)] obtain r where
    r: "top_k_select ap as scores k = Inr r" "length r = nat k" "distinct r"
       "set r \<subseteq> {0..<length scores}" "sorted_wrt (\<lambda>i j. scores ! j \<le> scores ! i) r"
       "\<forall>i\<in>set r. \<forall>j<length scores. j \<notin> set r \<longrightarrow> scores ! j \<le> scores ! i"
    by blast
  have "\<forall>i\<in>set r. scores ! i \<noteq> NegInf"
    using top_k_select_unmasked[OF r(3,4,6)] r(2) assms(5) by simp
  moreover have "length r = min (nat k) (available scores)" using r(2) assms(5) by simp
  ultimately show ?thesis using r by blast
qed

theorem top_k_select_sorted_top_k_witness:
  "argpartition_lawful stable_argpartition \<and> argsort_lawful stable_argsort
   \<and> (0::int) \<le> 2 \<and> 2 < int (length [Fin 0.5, Fin 0.5, Fin 0.9, NegInf])
   \<and> nat 2 \<le> available [Fin 0.5, Fin 0.5, Fin 0.9, NegInf]
   \<and> top_k_select stable_argpartition stable_argsort [Fin 0.5, Fin 0.5, Fin 0.9, NegInf] 2 = Inr [2, 0]
   \<and> (\<exists>r. top_k_select stable_argpartition stable_argsort [Fin 0.5, Fin 0.5, Fin 0.9, NegInf] 2 = Inr r
        \<and> length r = min (nat 2) (available [Fin 0.5, Fin 0.5, Fin 0.9, NegInf])
        \<and> (\<forall>i\<in>set r. [Fin 0.5, Fin 0.5, Fin 0.9, NegInf] ! i \<noteq> NegInf)
        \<and> sorted_wrt (\<lambda>i j. [Fin 0.5, Fin 0.5, Fin 0.9, NegInf] ! j \<le> [Fin 0.5, Fin 0.5, Fin 0.9, NegInf] ! i) r)"
proof -
  have h3: "(0::int) \<le> 2" by simp
  have h4: "2 < int (length [Fin 0.5, Fin 0.5, Fin 0.9, NegInf])" by simp
  have h5: "nat 2 \<le> available [Fin 0.5, Fin 0.5, Fin 0.9, NegInf]" by code_simp
  have v: "top_k_select stable_argpartition stable_argsort [Fin 0.5, Fin 0.5, Fin 0.9, NegInf] 2 = Inr [2, 0]"
    by code_simp
  from top_k_select_sorted_top_k[OF stable_argpartition_lawful stable_argsort_lawful h3 h4 h5]
  have "\<exists>r. top_k_select stable_argpartition stable_argsort [Fin 0.5, Fin 0.5, Fin 0.9, NegInf] 2 = Inr r
        \<and> length r = min (nat 2) (available [Fin 0.5, Fin 0.5, Fin 0.9, NegInf])
        \<and> (\<forall>i\<in>set r. [Fin 0.5, Fin 0.5, Fin 0.9, NegInf] ! i \<noteq> NegInf)
        \<and> sorted_wrt (\<lambda>i j. [Fin 0.5, Fin 0.5, Fin 0.9, NegInf] ! j \<le> [Fin 0.5, Fin 0.5, Fin 0.9, NegInf] ! i) r"
    by blast
  with stable_argpartition_lawful stable_argsort_lawful h3 h4 h5 v show ?thesis by blast
qed

text \<open>
  Claim C2 as stated fails on two counts. First input: a catalogue of 4 items with the
  context \<open>[0, 1, 3]\<close> and \<open>k = 2\<close> leaves one item available, and the selection still
  returns two indices (its slice \<^verbatim>\<open>[:top_k]\<close> has \<open>top_k\<close> entries for every
  library). Second input: the context \<open>[3]\<close>, where items 0 and 1 tie; a lawful library
  returns item 1 and leaves item 0 out.
\<close>

theorem top_k_select_not_as_specified:
  "recommend stable_argpartition stable_argsort (example_model NeuralMF) [0, 1, 3] 2 = Inr [2, 0]
   \<and> context_scores (example_network NeuralMF) 4 [0, 1, 3] = Inr [NegInf, NegInf, Fin 0.9, NegInf]
   \<and> top_k_select stable_argpartition stable_argsort [NegInf, NegInf, Fin 0.9, NegInf] 2 = Inr [2, 0]
   \<and> \<not> top_k_as_specified [NegInf, NegInf, Fin 0.9, NegInf] 2 [2, 0]
   \<and> recommend backward_argpartition backward_argsort (example_model NeuralMF) [3] 2 = Inr [2, 1]
   \<and> context_scores (example_network NeuralMF) 4 [3] = Inr [Fin 0.5, Fin 0.5, Fin 0.9, NegInf]
   \<and> top_k_select backward_argpartition backward_argsort [Fin 0.5, Fin 0.5, Fin 0.9, NegInf] 2 = Inr [2, 1]
   \<and> \<not> top_k_as_specified [Fin 0.5, Fin 0.5, Fin 0.9, NegInf] 2 [2, 1]"
proof -
  have 1: "recommend stable_argpartition stable_argsort (example_model NeuralMF) [0, 1, 3] 2 = Inr [2, 0]"
    by code_simp
  have 2: "context_scores (example_network NeuralMF) 4 [0, 1, 3] = Inr [NegInf, NegInf, Fin 0.9, NegInf]"
    by code_simp
  have 3: "top_k_select stable_argpartition stable_argsort [NegInf, NegInf, Fin 0.9, NegInf] 2 = Inr [2, 0]"
    by code_simp
  have 4: "\<not> top_k_as_specified [NegInf, NegInf, Fin 0.9, NegInf] 2 [2, 0]"
    by code_simp
  have 5: "recommend backward_argpartition backward_argsort (example_model NeuralMF) [3] 2 = Inr [2, 1]"
    by code_simp
  have 6: "context_scores (example_network NeuralMF) 4 [3] = Inr [Fin 0.5, Fin 0.5, Fin 0.9, NegInf]"
    by code_simp
  have 7: "top_k_select backward_argpartition backward_argsort [Fin 0.5, Fin 0.5, Fin 0.9, NegInf] 2 = Inr [2, 1]"
    by code_simp
  have 8: "\<not> top_k_as_specified [Fin 0.5, Fin 0.5, Fin 0.9, NegInf] 2 [2, 1]"
    by code_simp
  from 1 2 3 4 5 6 7 8 show ?thesis by blast
qed

text \<open>
  Claim C3 fails on the code when fewer than \<open>top_k\<close> items lie outside the context:
  for every lawful library \<open>recommend\<close> still returns \<open>top_k\<close> pairwise distinct ids,
  so at least one of them is an item of the context (masked to minus infinity, but never
  removed from the selection).
\<close>

theorem recommend_returns_context_item:
  assumes "argpartition_lawful ap" "argsort_lawful as"
    and "trained self" "0 < num_users self"
    and "user_context \<noteq> []" "\<forall>c\<in>set user_context. 0 \<le> c \<and> c < int (num_items self)"
    and "0 \<le> top_k" "top_k < int (num_items self)"
    and "num_items self - card (set user_context) < nat top_k"
  shows "\<exists>r. recommend ap as self user_context top_k = Inr r \<and> length r = nat top_k
            \<and> distinct r \<and> (\<exists>x\<in>set r. x \<in> set user_context)"
proof -
  define n where "n = num_items self"
  from assms(3) obtain net where net: "model self = Some net" "model_loaded self"
    "a_num_users (net_arch net) = num_users self" "a_num_items (net_arch net) = num_items self"
    by (rule trained_model)
  have ok: "list_all (index_ok n) user_context"
    using assms(6) by (auto simp: list_all_iff index_ok_def n_def)
  obtain scores where s: "context_scores net n user_context = Inr scores"
    using context_scores_ok[of net n user_context] net assms(4) ok by (simp add: n_def)
  have ls: "length scores = n" using s by (rule context_scores_length)
  from top_k_select_lawful[OF assms(1,2,7), of scores] assms(8) ls obtain r0 where
    r0: "top_k_select ap as scores top_k = Inr r0" "length r0 = nat top_k" "distinct r0"
        "set r0 \<subseteq> {0..<n}"
    by (auto simp: n_def)
  have rec: "recommend ap as self user_context top_k = Inr (map int r0)"
    using net assms(5) s r0(1) by (simp add: recommend_def n_def)
  have d: "distinct (map int r0)" using r0(3) by (simp add: distinct_map)
  have "\<exists>x\<in>set r0. int x \<in> set user_context"
  proof (rule ccontr)
    assume "\<not> ?thesis"
    then have sub: "set r0 \<subseteq> {0..<n} - nat ` set user_context"
      using r0(4) assms(6) by force
    have inj: "inj_on nat (set user_context)"
    proof (rule inj_onI)
      fix x y assume "x \<in> set user_context" "y \<in> set user_context" "nat x = nat y"
      with assms(6) have "0 \<le> x" "0 \<le> y" by auto
      with \<open>nat x = nat y\<close> show "x = y" by simp
    qed
    have within: "nat ` set user_context \<subseteq> {0..<n}"
      using assms(6) by (auto simp: n_def)
    have "card (set r0) \<le> card ({0..<n} - nat ` set user_context)"
      using sub by (intro card_mono) simp_all
    also have "\<dots> = n - card (nat ` set user_context)"
      using within by (simp add: card_Diff_subset finite_subset)
    also have "\<dots> = n - card (set user_context)" using inj by (simp add: card_image)
    finally have "nat top_k \<le> n - card (set user_context)"
      using r0(2,3) by (simp add: distinct_card)
    with assms(9) show False by (simp add: n_def)
  qed
  then have "\<exists>x\<in>set (map int r0). x \<in> set user_context" by auto
  with rec d r0(2) show ?thesis by (intro exI[of _ "map int r0"]) simp
qed

theorem recommend_returns_context_item_witness:
  "argpartition_lawful stable_argpartition \<and> argsort_lawful stable_argsort
   \<and> trained (example_model NeuralMF) \<and> 0 < num_users (example_model NeuralMF)
   \<and> [0, 1, 3] \<noteq> ([] :: int list)
   \<and> list_all (\<lambda>c. 0 \<le> c \<and> c < int (num_items (example_model NeuralMF))) [0, 1, 3]
   \<and> (0::int) \<le> 2 \<and> 2 < int (num_items (example_model NeuralMF))
   \<and> num_items (example_model NeuralMF) - card (set [0, 1, 3 :: int]) < nat 2
   \<and> recommend stable_argpartition stable_argsort (example_model NeuralMF) [0, 1, 3] 2 = Inr [2, 0]
   \<and> (\<exists>r. recommend stable_argpartition stable_argsort (example_model NeuralMF) [0, 1, 3] 2 = Inr r
          \<and> length r = nat 2 \<and> distinct r \<and> (\<exists>x\<in>set r. x \<in> set [0, 1, 3]))"
proof -
  have h4: "0 < num_users (example_model NeuralMF)" by code_simp
  have h5: "[0, 1, 3] \<noteq> ([] :: int list)" by simp
  have h6: "\<forall>c\<in>set [0, 1, 3]. 0 \<le> c \<and> c < int (num_items (example_model NeuralMF))"
    by (simp add: example_model_def)
  have h7: "(0::int) \<le> 2" by simp
  have h8: "2 < int (num_items (example_model NeuralMF))" by (simp add: example_model_def)
  have h9: "num_items (example_model NeuralMF) - card (set [0, 1, 3 :: int]) < nat 2"
    by (simp add: example_model_def)
  have v: "recommend stable_argpartition stable_argsort (example_model NeuralMF) [0, 1, 3] 2 = Inr [2, 0]"
    by code_simp
  note t = recommend_returns_context_item[OF stable_argpartition_lawful stable_argsort_lawful
      trained_example h4 h5 h6 h7 h8 h9]
  have h6': "list_all (\<lambda>c. 0 \<le> c \<and> c < int (num_items (example_model NeuralMF))) [0, 1, 3]"
    using h6 by (simp add: list_all_iff)
  from t stable_argpartition_lawful stable_argsort_lawful trained_example h4 h5 h6' h7 h8 h9 v
  show ?thesis by blast
qed


section \<open>The model's predict\<close>













text \<open>
  The bound is on the network's tables and not on the recorded sizes, because a
  \<open>restore\<close> that fails part of the way leaves a loaded instance whose recorded sizes
  are no longer those of its network: here \<open>num_users\<close> is 10 and the network still has
  3 users, so that a matrix of 5 rows is within the recorded size and \<open>predict\<close> raises.
\<close>

lemma failed_restore_keeps_loaded:
  "restore w0 (\<lambda>p. Some (empty_checkpoint\<lparr>ck_num_users := Some 10\<rparr>)) (example_model NeuralMF) ''ckpt''
     = (Some (KeyError ''num_items''), (example_model NeuralMF)\<lparr>num_users := 10\<rparr>)"
  "model_loaded ((example_model NeuralMF)\<lparr>num_users := 10\<rparr>)"
  "predict ((example_model NeuralMF)\<lparr>num_users := 10\<rparr>) (example_matrix 5 4)
     = Inl embedding_index_out_of_range"
proof -
  show "restore w0 (\<lambda>p. Some (empty_checkpoint\<lparr>ck_num_users := Some 10\<rparr>)) (example_model NeuralMF) ''ckpt''
     = (Some (KeyError ''num_items''), (example_model NeuralMF)\<lparr>num_users := 10\<rparr>)"
    by (simp add: restore_def empty_checkpoint_def)
  show "model_loaded ((example_model NeuralMF)\<lparr>num_users := 10\<rparr>)"
    by (simp add: example_model_def)
  show "predict ((example_model NeuralMF)\<lparr>num_users := 10\<rparr>) (example_matrix 5 4)
     = Inl embedding_index_out_of_range"
    by code_simp
qed





section \<open>Checkpoints\<close>

text \<open>
  Claim C9. For a trained instance of either class, \<open>save\<close> into a named directory
  succeeds, and \<open>restore\<close> of the file it wrote, on any instance of the same class (a
  fresh one included),
  succeeds and reproduces \<open>num_users\<close>, \<open>num_items\<close>, the embedding dimension, the
  hidden layer sizes, the dropout and the network with all its parameters; \<open>predict\<close>
  on the restored instance returns the same result as on the original, for every rating
  matrix. (Equality of results stands for bit-identical output: the parameters loaded are
  the parameters saved, and the evaluation-mode network is a function of them.)
\<close>

theorem save_restore_round_trip:
  assumes "trained self" "variant other = variant self" "save_dir \<noteq> []"
  shows "\<exists>fs' restored.
      save self save_dir fs = Inr fs'
    \<and> restore w0 fs' other (path_join save_dir (save_filename self)) = (None, restored)
    \<and> num_users restored = num_users self \<and> num_items restored = num_items self
    \<and> embedding_dim restored = embedding_dim self \<and> hidden_dims restored = hidden_dims self
    \<and> dropout restored = dropout self
    \<and> model restored = model self \<and> model_loaded restored \<and> trained restored
    \<and> predict restored M = predict self M"
proof -
  from assms(1) obtain net where net: "model self = Some net" "model_loaded self"
    "net_arch net = \<lparr>a_variant = variant self, a_num_users = num_users self,
        a_num_items = num_items self, a_embedding_dim = embedding_dim self,
        a_hidden_dims = hidden_dims self\<rparr>"
    "net_dropout net = dropout self"
    "\<not> (variant self = DeepFM \<and> hidden_dims self = [])"
    by (rule trained_model)
  define path where "path = path_join save_dir (save_filename self)"
  define ck where "ck = (case variant self of
              NeuralMF \<Rightarrow>
                empty_checkpoint\<lparr>ck_model_state_dict := Some (get_state_dict net),
                  ck_num_users := Some (num_users self), ck_num_items := Some (num_items self),
                  ck_embedding_dim := Some (embedding_dim self),
                  ck_hidden_dims := Some (hidden_dims self),
                  ck_dropout := Some (dropout self)\<rparr>
            | DeepFM \<Rightarrow>
                empty_checkpoint\<lparr>ck_model_state_dict := Some (get_state_dict net),
                  ck_num_users := Some (num_users self), ck_num_items := Some (num_items self),
                  ck_embedding_dim := Some (embedding_dim self),
                  ck_deep_hidden_dims := Some (hidden_dims self),
                  ck_dropout := Some (dropout self)\<rparr>)"
  define restored where "restored = other\<lparr>num_users := num_users self, num_items := num_items self,
      embedding_dim := embedding_dim self, hidden_dims := hidden_dims self, dropout := dropout self,
      model := Some net, model_loaded := True\<rparr>"
  have sv: "save self save_dir fs = Inr (fs(path \<mapsto> ck))"
    using net(1) assms(3) by (simp add: save_def Let_def path_def ck_def)
  have neteq: "net = \<lparr>net_arch = net_arch net, net_dropout = net_dropout net, net_score = net_score net\<rparr>"
    by simp
  have rs: "restore w0 (fs(path \<mapsto> ck)) other path = (None, restored)"
  proof (cases "variant self")
    case NeuralMF
    then show ?thesis
      using assms(2) net(3,4)
      by (simp add: restore_def ck_def empty_checkpoint_def Let_def new_network_def
         load_state_dict_def get_state_dict_def restored_def)
  next
    case DeepFM
    then show ?thesis
      using assms(2) net(3,4,5)
      by (simp add: restore_def ck_def empty_checkpoint_def Let_def new_network_def
         load_state_dict_def get_state_dict_def restored_def)
  qed
  have tr: "trained restored"
    using assms net unfolding trained_def restored_def
    by (auto simp: new_network_def)
  have pr: "predict restored M = predict self M"
    using net(1,2) by (simp add: predict_def restored_def)
  show ?thesis
    using sv rs tr pr net(1) unfolding path_def
    by (intro exI[of _ "fs(path_join save_dir (save_filename self) \<mapsto> ck)"] exI[of _ restored])
       (simp add: restored_def)
qed

theorem save_restore_round_trip_witness:
  "trained (example_model DeepFM) \<and> variant (neural_init DeepFM) = variant (example_model DeepFM)
   \<and> BASE_DIR \<noteq> []
   \<and> (\<exists>fs' restored.
        save (example_model DeepFM) BASE_DIR (\<lambda>p. None) = Inr fs'
      \<and> restore (\<lambda>u i. 0) fs' (neural_init DeepFM)
            (path_join BASE_DIR (save_filename (example_model DeepFM))) = (None, restored)
      \<and> num_users restored = 3 \<and> num_items restored = 4
      \<and> model restored = Some (example_network DeepFM) \<and> model_loaded restored
      \<and> predict restored (example_matrix 3 4) = predict (example_model DeepFM) (example_matrix 3 4))"
proof -
  have v: "variant (neural_init DeepFM) = variant (example_model DeepFM)" by code_simp
  have f: "num_users (example_model DeepFM) = 3" "num_items (example_model DeepFM) = 4"
    "model (example_model DeepFM) = Some (example_network DeepFM)"
    by (simp_all add: example_model_def)
  note d = BASE_DIR_nonempty
  from save_restore_round_trip[OF trained_example v d, of "\<lambda>p. None" "\<lambda>u i. 0" "example_matrix 3 4"]
  show ?thesis using trained_example v d f by metis 
qed

section \<open>The wrapper\<close>

text \<open>
  Claim C5. Once \<open>set_model X\<close> has succeeded, a second \<open>set_model X\<close> returns without
  an exception and leaves the wrapper as it is, whatever the registry, the file system
  and the \<open>restore\<close> method are at the second call: none of them is consulted, so no
  instance is constructed and nothing is restored.
\<close>

theorem set_model_same_name_is_noop:
  assumes "set_model model_to_cls path_exists restore_m self X = (None, self')"
  shows "model_name self' = Some X
       \<and> set_model other_cls other_exists other_restore self' X = (None, self')"
proof -
  have "model_name self' = Some X"
    using assms
    by (auto simp: set_model_def Let_def split: if_splits option.splits prod.splits)
  then show ?thesis by (simp add: set_model_def)
qed

text \<open>
  The witness: the second call runs on an empty file system, where a \<open>restore\<close> would
  raise.
\<close>

theorem set_model_same_name_is_noop_witness:
  "neural_set_model (\<lambda>u i. 0) (example_fs NeuralMF) wrapper_init ''NeuralMF''
     = (None, \<lparr>model_name = Some ''NeuralMF'', wrapper_model = Some (example_model NeuralMF)\<rparr>)
   \<and> neural_set_model (\<lambda>u i. 0) (\<lambda>p. None)
        \<lparr>model_name = Some ''NeuralMF'', wrapper_model = Some (example_model NeuralMF)\<rparr> ''NeuralMF''
     = (None, \<lparr>model_name = Some ''NeuralMF'', wrapper_model = Some (example_model NeuralMF)\<rparr>)"
proof -
  note first = set_model_example[of "\<lambda>u i. 0"]
  from set_model_same_name_is_noop[OF first[unfolded neural_set_model_def],
      of neural_model_to_cls "\<lambda>p. (\<lambda>p. None :: checkpoint option) p \<noteq> None" "restore (\<lambda>u i. 0) (\<lambda>p. None)"]
  show ?thesis using first by (simp add: neural_set_model_def)
qed

text \<open>
  Claim C1 fails on the code: \<open>set_model\<close> records the new name before it looks the
  name up, and installs the fresh instance before it checks the checkpoint file and
  before it restores. After a failure with an unregistered name the recorded name is the
  new one (the old instance stays in the slot); after a failure with a missing
  checkpoint the recorded name is the new one and the slot holds the fresh instance, not
  yet restored; after a failing \<open>restore\<close> the slot holds the instance as the failed
  \<open>restore\<close> left it.
\<close>

theorem set_model_failure_changes_wrapper:
  assumes "model_name self \<noteq> Some new_model"
  shows "(model_to_cls new_model = None \<longrightarrow>
            set_model model_to_cls path_exists restore_m self new_model
              = (Some (KeyError (''Model '' @ new_model @ '' not found in model registry'')),
                 self\<lparr>model_name := Some new_model\<rparr>))
       \<and> (\<forall>fresh p. model_to_cls new_model = Some fresh \<and> model_to_ckpt new_model = Some p
              \<and> \<not> path_exists p \<longrightarrow>
            set_model model_to_cls path_exists restore_m self new_model
              = (Some (FileNotFoundError p),
                 self\<lparr>model_name := Some new_model, wrapper_model := Some fresh\<rparr>))
       \<and> (\<forall>fresh p e partly. model_to_cls new_model = Some fresh \<and> model_to_ckpt new_model = Some p
              \<and> path_exists p \<and> restore_m fresh p = (Some e, partly) \<longrightarrow>
            set_model model_to_cls path_exists restore_m self new_model
              = (Some e, self\<lparr>model_name := Some new_model, wrapper_model := Some partly\<rparr>))"
  using assms by (simp add: set_model_def Let_def)

theorem set_model_failure_changes_wrapper_witness:
  "model_name \<lparr>model_name = Some ''NeuralMF'', wrapper_model = Some (example_model NeuralMF)\<rparr> \<noteq> Some ''SVD''
   \<and> neural_model_to_cls ''SVD'' = None
   \<and> neural_set_model (\<lambda>u i. 0) (example_fs NeuralMF)
        \<lparr>model_name = Some ''NeuralMF'', wrapper_model = Some (example_model NeuralMF)\<rparr> ''SVD''
      = (Some (KeyError ''Model SVD not found in model registry''),
         \<lparr>model_name = Some ''SVD'', wrapper_model = Some (example_model NeuralMF)\<rparr>)
   \<and> model_name \<lparr>model_name = Some ''NeuralMF'', wrapper_model = Some (example_model NeuralMF)\<rparr> \<noteq> Some ''DeepFM''
   \<and> neural_model_to_cls ''DeepFM'' = Some (neural_init DeepFM)
   \<and> model_to_ckpt ''DeepFM'' = Some ''recommend/ckpt/DeepFM_emb64.pth''
   \<and> example_fs NeuralMF ''recommend/ckpt/DeepFM_emb64.pth'' = None
   \<and> neural_set_model (\<lambda>u i. 0) (example_fs NeuralMF)
        \<lparr>model_name = Some ''NeuralMF'', wrapper_model = Some (example_model NeuralMF)\<rparr> ''DeepFM''
      = (Some (FileNotFoundError ''recommend/ckpt/DeepFM_emb64.pth''),
         \<lparr>model_name = Some ''DeepFM'', wrapper_model = Some (neural_init DeepFM)\<rparr>)
   \<and> neural_set_model (\<lambda>u i. 0)
        (\<lambda>p. if p = ''recommend/ckpt/DeepFM_emb64.pth'' then Some empty_checkpoint else None)
        \<lparr>model_name = Some ''NeuralMF'', wrapper_model = Some (example_model NeuralMF)\<rparr> ''DeepFM''
      = (Some (KeyError ''num_users''),
         \<lparr>model_name = Some ''DeepFM'', wrapper_model = Some (neural_init DeepFM)\<rparr>)"
proof -
  let ?w = "\<lparr>model_name = Some ''NeuralMF'', wrapper_model = Some (example_model NeuralMF)\<rparr>"
  let ?fs = "\<lambda>p. if p = ''recommend/ckpt/DeepFM_emb64.pth'' then Some empty_checkpoint else None"
  have a: "model_name ?w \<noteq> Some ''SVD''" by simp
  have b: "model_name ?w \<noteq> Some ''DeepFM''" by simp
  note t1 = set_model_failure_changes_wrapper[OF a, of neural_model_to_cls
      "\<lambda>p. example_fs NeuralMF p \<noteq> None" "restore (\<lambda>u i. 0) (example_fs NeuralMF)"]
  note t2 = set_model_failure_changes_wrapper[OF b, of neural_model_to_cls
      "\<lambda>p. example_fs NeuralMF p \<noteq> None" "restore (\<lambda>u i. 0) (example_fs NeuralMF)"]
  note t3 = set_model_failure_changes_wrapper[OF b, of neural_model_to_cls
      "\<lambda>p. ?fs p \<noteq> None" "restore (\<lambda>u i. 0) ?fs"]
  from t1 neural_registry(3)
  have 1: "neural_set_model (\<lambda>u i. 0) (example_fs NeuralMF) ?w ''SVD''
      = (Some (KeyError ''Model SVD not found in model registry''),
         \<lparr>model_name = Some ''SVD'', wrapper_model = Some (example_model NeuralMF)\<rparr>)"
    by (simp add: neural_set_model_def)
  from t2 neural_registry(2) example_checkpoint_path(4) example_fs_files(2)
  have 2: "neural_set_model (\<lambda>u i. 0) (example_fs NeuralMF) ?w ''DeepFM''
      = (Some (FileNotFoundError ''recommend/ckpt/DeepFM_emb64.pth''),
         \<lparr>model_name = Some ''DeepFM'', wrapper_model = Some (neural_init DeepFM)\<rparr>)"
    by (simp add: neural_set_model_def)
  from t3 neural_registry(2) example_checkpoint_path(4) restore_empty_checkpoint[of "\<lambda>u i. 0"]
  have 3: "neural_set_model (\<lambda>u i. 0) ?fs ?w ''DeepFM''
      = (Some (KeyError ''num_users''),
         \<lparr>model_name = Some ''DeepFM'', wrapper_model = Some (neural_init DeepFM)\<rparr>)"
    by (simp add: neural_set_model_def)
  from a b 1 2 3 neural_registry example_checkpoint_path(4) example_fs_files(2)
  show ?thesis by blast
qed

text \<open>
  What follows such a failure: the same request is now skipped as "already loaded", and
  \<open>recommend\<close> reaches an instance that was never restored.
\<close>

lemma failed_switch_aftermath:
  "neural_set_model w0 fs \<lparr>model_name = Some ''DeepFM'', wrapper_model = Some (neural_init DeepFM)\<rparr> ''DeepFM''
     = (None, \<lparr>model_name = Some ''DeepFM'', wrapper_model = Some (neural_init DeepFM)\<rparr>)"
  "neural_wrapper_recommend ap as \<lparr>model_name = Some ''DeepFM'', wrapper_model = Some (neural_init DeepFM)\<rparr> [0]
     = Inl model_not_loaded"
  by (simp_all add: neural_set_model_def set_model_def neural_wrapper_recommend_def
        wrapper_recommend_def recommend_def neural_init_def)

text \<open>
  Claim C6, as the code has it. The wrapper's \<open>recommend\<close> raises the "No model
  loaded" ValueError whenever the slot holds no instance, whether or not a name is
  recorded; it raises a different ValueError, "Model name not set", when the slot holds an
  instance and no name is recorded; otherwise it returns what the active instance's
  \<open>recommend\<close> returns on the context.
\<close>

theorem wrapper_recommend_guards:
  "(wrapper_model self = None \<longrightarrow> wrapper_recommend recommend_m self user_context = Inl no_model_loaded)
   \<and> (\<forall>m. wrapper_model self = Some m \<and> model_name self = None \<longrightarrow>
          wrapper_recommend recommend_m self user_context = Inl model_name_not_set)
   \<and> (\<forall>m name. wrapper_model self = Some m \<and> model_name self = Some name \<longrightarrow>
          wrapper_recommend recommend_m self user_context = recommend_m m user_context)
   \<and> no_model_loaded \<noteq> model_name_not_set"
  by (simp add: wrapper_recommend_def no_model_loaded_def model_name_not_set_def)

theorem wrapper_recommend_guards_witness:
  "wrapper_model (wrapper_init :: neural wrapper) = None
   \<and> neural_wrapper_recommend stable_argpartition stable_argsort wrapper_init [0] = Inl no_model_loaded
   \<and> neural_wrapper_recommend stable_argpartition stable_argsort
        \<lparr>model_name = None, wrapper_model = Some (example_model NeuralMF)\<rparr> [0] = Inl model_name_not_set
   \<and> neural_wrapper_recommend stable_argpartition stable_argsort
        \<lparr>model_name = Some ''NeuralMF'', wrapper_model = Some (example_model NeuralMF)\<rparr> [0]
      = recommend stable_argpartition stable_argsort (example_model NeuralMF) [0] default_top_k"
proof -
  let ?f = "\<lambda>m ctx. recommend stable_argpartition stable_argsort m ctx default_top_k"
  note t1 = wrapper_recommend_guards[of "wrapper_init :: neural wrapper" ?f "[0]"]
  note t2 = wrapper_recommend_guards[of "\<lparr>model_name = None, wrapper_model = Some (example_model NeuralMF)\<rparr>" ?f "[0]"]
  note t3 = wrapper_recommend_guards[of "\<lparr>model_name = Some ''NeuralMF'', wrapper_model = Some (example_model NeuralMF)\<rparr>" ?f "[0]"]
  have a: "wrapper_model (wrapper_init :: neural wrapper) = None" by (simp add: wrapper_init_def)
  from t1 a have 1: "neural_wrapper_recommend stable_argpartition stable_argsort wrapper_init [0] = Inl no_model_loaded"
    by (simp add: neural_wrapper_recommend_def)
  from t2 have 2: "neural_wrapper_recommend stable_argpartition stable_argsort
        \<lparr>model_name = None, wrapper_model = Some (example_model NeuralMF)\<rparr> [0] = Inl model_name_not_set"
    by (simp add: neural_wrapper_recommend_def)
  from t3 have 3: "neural_wrapper_recommend stable_argpartition stable_argsort
        \<lparr>model_name = Some ''NeuralMF'', wrapper_model = Some (example_model NeuralMF)\<rparr> [0]
      = recommend stable_argpartition stable_argsort (example_model NeuralMF) [0] default_top_k"
    by (simp add: neural_wrapper_recommend_def)
  from a 1 2 3 show ?thesis by blast
qed

text \<open>
  Claim C6 as stated fails where a name is recorded and the slot is empty (the state a
  \<open>set_model\<close> with an unregistered name leaves a new wrapper in): the exception is the
  same "No model loaded" as for a wrapper on which no model was ever set.
\<close>

theorem wrapper_recommend_name_without_model:
  "snd (set_model (\<lambda>name. None) (\<lambda>p. True) (restore (\<lambda>u i. 0) (\<lambda>p. None)) wrapper_init ''NeuralMF'')
      = \<lparr>model_name = Some ''NeuralMF'', wrapper_model = None\<rparr>
   \<and> neural_wrapper_recommend stable_argpartition stable_argsort
        \<lparr>model_name = Some ''NeuralMF'', wrapper_model = None\<rparr> [0] = Inl no_model_loaded
   \<and> neural_wrapper_recommend stable_argpartition stable_argsort wrapper_init [0] = Inl no_model_loaded"
  by (simp add: set_model_def wrapper_init_def neural_wrapper_recommend_def wrapper_recommend_def Let_def)

end
